theory Spec2Isabelle
  imports Main "HOL-Library.Word" "HOL-Library.List_Lexorder" "HOL-Library.Char_ord"
    "HOL-Library.AList"
begin

section \<open>Go values\<close>

text \<open>
  A Go string is a sequence of bytes; \<^typ>\<open>string\<close> is a list of eight-bit characters, so
  the two agree and \<^const>\<open>length\<close> is Go's \<^verbatim>\<open>len\<close>.

  A value of type \<^verbatim>\<open>interface{}\<close> is modelled by the values the protocol can carry:
  nil, booleans, numbers, strings, slices and string-keyed maps. \<open>VNumber n\<close> stands for
  a number of one of Go's integer types, or a float64, whose value is the integer \<open>n\<close> (the
  \<^verbatim>\<open>int\<close> 3 and \<^verbatim>\<open>float64(3)\<close> are both \<open>VNumber 3\<close>); numbers with a fractional part are
  left out. A Go map is an association list with distinct keys. A slice or a map held in
  an interface is taken to be non-nil. In the fields \<^verbatim>\<open>Status\<close> and \<^verbatim>\<open>Data\<close> of a message
  the nil and the empty slice, and the nil and the empty map, are both \<open>[]\<close>: Go's \<^verbatim>\<open>len\<close>
  is 0 for both, the code never tells them apart, and \<^verbatim>\<open>omitempty\<close> omits both.
\<close>

datatype gvalue =
    VNil
  | VBool bool
  | VNumber int
  | VString string
  | VSlice "gvalue list"
  | VMap "(string \<times> gvalue) list"

text \<open>A Go \<^verbatim>\<open>error\<close> is nil (\<open>None\<close>) or carries the text its \<^verbatim>\<open>Error()\<close> returns.\<close>

type_synonym error = "string option"

text \<open>The run-time panics the modelled code can raise.\<close>

datatype panic =
    NilDereference  \<comment> \<open>call of a nil func value, use of a nil pointer or interface\<close>
  | InterfaceConversion  \<comment> \<open>failed single-value type assertion\<close>
  | Panicked string  \<comment> \<open>an explicit call of \<^verbatim>\<open>panic\<close>\<close>

section \<open>protocol.Message\<close>

record Message =
  Op :: string
  ID :: string
  Session :: string
  Code :: string
  Status :: "string list"
  Value :: gvalue
  Output :: string
  ProtocolError :: string
  Data :: "(string \<times> gvalue) list"

text \<open>The zero value \<^verbatim>\<open>protocol.Message{}\<close>.\<close>

definition zeroMessage :: Message where
  "zeroMessage = \<lparr>Op = [], ID = [], Session = [], Code = [], Status = [], Value = VNil,
     Output = [], ProtocolError = [], Data = []\<rparr>"

section \<open>Library functions used by the repository\<close>

subsection \<open>unicode/utf8\<close>

definition RuneError :: nat where
  "RuneError = 0xFFFD"

text \<open>
  The table \<^verbatim>\<open>first\<close> of package utf8 together with \<^verbatim>\<open>acceptRanges\<close>: for a leading byte of
  a multi-byte sequence, the length of the sequence and the range allowed for the second
  byte; \<open>None\<close> for ASCII and for bytes that cannot start a sequence.
\<close>

definition first :: "nat \<Rightarrow> (nat \<times> nat \<times> nat) option" where
  "first b =
    (if 0xC2 \<le> b \<and> b \<le> 0xDF then Some (2, 0x80, 0xBF)
     else if b = 0xE0 then Some (3, 0xA0, 0xBF)
     else if (0xE1 \<le> b \<and> b \<le> 0xEC) \<or> b = 0xEE \<or> b = 0xEF then Some (3, 0x80, 0xBF)
     else if b = 0xED then Some (3, 0x80, 0x9F)
     else if b = 0xF0 then Some (4, 0x90, 0xBF)
     else if 0xF1 \<le> b \<and> b \<le> 0xF3 then Some (4, 0x80, 0xBF)
     else if b = 0xF4 then Some (4, 0x80, 0x8F)
     else None)"

text \<open>\<^verbatim>\<open>utf8.DecodeRuneInString\<close>: the first rune of the string and its width in bytes.\<close>

definition DecodeRuneInString :: "string \<Rightarrow> nat \<times> nat" where
  "DecodeRuneInString s =
    (case s of
       [] \<Rightarrow> (RuneError, 0)
     | c0 # _ \<Rightarrow>
        (let s0 = of_char c0 in
         case first s0 of
           None \<Rightarrow> if s0 < 0x80 then (s0, 1) else (RuneError, 1)
         | Some (sz, lo, hi) \<Rightarrow>
            if length s < sz then (RuneError, 1)
            else let s1 = of_char (s ! 1) in
              if s1 < lo \<or> hi < s1 then (RuneError, 1)
              else if sz \<le> 2 then ((s0 mod 32) * 64 + s1 mod 64, 2)
              else let s2 = of_char (s ! 2) in
                if s2 < 0x80 \<or> 0xBF < s2 then (RuneError, 1)
                else if sz \<le> 3 then ((s0 mod 16) * 4096 + (s1 mod 64) * 64 + s2 mod 64, 3)
                else let s3 = of_char (s ! 3) in
                  if s3 < 0x80 \<or> 0xBF < s3 then (RuneError, 1)
                  else ((s0 mod 8) * 262144 + (s1 mod 64) * 4096 + (s2 mod 64) * 64
                          + s3 mod 64, 4)))"

text \<open>\<^verbatim>\<open>utf8.AppendRune\<close> on an empty buffer: the UTF-8 encoding of a rune.\<close>

definition AppendRune :: "nat \<Rightarrow> string" where
  "AppendRune r =
    (if r \<le> 0x7F then [char_of r]
     else if r \<le> 0x7FF then [char_of (0xC0 + r div 64), char_of (0x80 + r mod 64)]
     else if 0x10FFFF < r \<or> (0xD800 \<le> r \<and> r \<le> 0xDFFF) then [CHR 0xEF, CHR 0xBF, CHR 0xBD]
     else if r \<le> 0xFFFF then
       [char_of (0xE0 + r div 4096), char_of (0x80 + (r div 64) mod 64), char_of (0x80 + r mod 64)]
     else
       [char_of (0xF0 + r div 262144), char_of (0x80 + (r div 4096) mod 64),
        char_of (0x80 + (r div 64) mod 64), char_of (0x80 + r mod 64)])"

text \<open>\<^verbatim>\<open>utf8.ValidString\<close>: the string consists of valid UTF-8 sequences only.\<close>

function ValidString :: "string \<Rightarrow> bool" where
  "ValidString s =
    (if s = [] then True
     else
       let (r, width) = DecodeRuneInString s
       in if r = RuneError \<and> width = 1 then False else ValidString (drop width s))"
  by pat_completeness auto
termination
proof (relation "measure length")
  show "wf (measure length)"
    by simp
next
  fix s :: string and x :: "nat \<times> nat" and r width :: nat
  assume ne: "s \<noteq> []" and x: "x = DecodeRuneInString s" and rs: "(r, width) = x"
  have "0 < snd (DecodeRuneInString s)"
    using ne by (cases s) (auto simp: DecodeRuneInString_def Let_def split: option.splits)
  with x rs have "0 < width"
    by (auto simp: prod_eq_iff)
  with ne show "(drop width s, s) \<in> measure length"
    by simp
qed

declare ValidString.simps [simp del]

definition ValidRune :: "nat \<Rightarrow> bool" where
  "ValidRune r \<longleftrightarrow> r < 0xD800 \<or> (0xDFFF < r \<and> r \<le> 0x10FFFF)"

subsection \<open>Conversion to float64\<close>

text \<open>
  The float64 nearest to an integer, ties going to the even significand, as the
  conversion \<^verbatim>\<open>float64(n)\<close> and \<^verbatim>\<open>strconv.ParseFloat\<close> on the decimal numeral of \<open>n\<close>
  compute it; \<open>None\<close> when the result is beyond the largest float64 (\<^verbatim>\<open>ParseFloat\<close> then
  returns a range error). \<open>excessBits a\<close> is the number of bits by which \<open>a\<close> exceeds the
  53 bits of the significand.
\<close>

fun excessBits :: "nat \<Rightarrow> nat" where
  "excessBits a = (if a < 2 ^ 53 then 0 else Suc (excessBits (a div 2)))"

declare excessBits.simps [simp del]

definition float64 :: "int \<Rightarrow> int option" where
  "float64 n =
    (let a = nat \<bar>n\<bar>;
         e = excessBits a;
         q = a div 2 ^ e;
         r = a mod 2 ^ e;
         q' = (if 2 ^ e < 2 * r \<or> (2 * r = 2 ^ e \<and> odd q) then q + 1 else q);
         f = q' * 2 ^ e
     in if 2 ^ 1024 \<le> f then None else Some (sgn n * int f))"

subsection \<open>strconv.Quote, the \<^verbatim>\<open>%q\<close> verb of fmt\<close>

text \<open>
  \<^verbatim>\<open>unicode.IsPrint\<close> is computed for runes up to \<open>0xFF\<close>; beyond, Go consults tables
  of the Unicode standard, which are a parameter \<open>tbl\<close> of the model.
\<close>

definition IsPrint :: "(nat \<Rightarrow> bool) \<Rightarrow> nat \<Rightarrow> bool" where
  "IsPrint tbl r =
    (if r \<le> 0xFF then
       (if 0x20 \<le> r \<and> r \<le> 0x7E then True
        else if 0xA1 \<le> r \<and> r \<le> 0xFF then r \<noteq> 0xAD
        else False)
     else tbl r)"

definition lowerhex :: "nat \<Rightarrow> char" where
  "lowerhex n = ''0123456789abcdef'' ! (n mod 16)"

text \<open>\<open>hexdigits k r\<close>: the \<open>k\<close> low hexadecimal digits of \<open>r\<close>, most significant first.\<close>

fun hexdigits :: "nat \<Rightarrow> nat \<Rightarrow> string" where
  "hexdigits 0 r = []"
| "hexdigits (Suc k) r = hexdigits k (r div 16) @ [lowerhex r]"

text \<open>
  \<^verbatim>\<open>strconv.appendEscapedRune\<close> with quote \<^verbatim>\<open>"\<close>, \<^verbatim>\<open>ASCIIonly\<close> and \<^verbatim>\<open>graphicOnly\<close> false.
\<close>

definition appendEscapedRune :: "(nat \<Rightarrow> bool) \<Rightarrow> nat \<Rightarrow> string" where
  "appendEscapedRune tbl r =
    (if r = 0x22 \<or> r = 0x5C then [CHR 0x5C, char_of r]
     else if IsPrint tbl r then AppendRune r
     else if r = 7 then [CHR 0x5C, CHR ''a'']
     else if r = 8 then [CHR 0x5C, CHR ''b'']
     else if r = 12 then [CHR 0x5C, CHR ''f'']
     else if r = 10 then [CHR 0x5C, CHR ''n'']
     else if r = 13 then [CHR 0x5C, CHR ''r'']
     else if r = 9 then [CHR 0x5C, CHR ''t'']
     else if r = 11 then [CHR 0x5C, CHR ''v'']
     else if r < 0x20 \<or> r = 0x7F then [CHR 0x5C, CHR ''x''] @ hexdigits 2 r
     else if \<not> ValidRune r then [CHR 0x5C, CHR ''u''] @ hexdigits 4 0xFFFD
     else if r < 0x10000 then [CHR 0x5C, CHR ''u''] @ hexdigits 4 r
     else [CHR 0x5C, CHR ''U''] @ hexdigits 8 r)"

text \<open>The loop of \<^verbatim>\<open>strconv.appendQuotedWith\<close>, without the enclosing quotes.\<close>

function quoteBody :: "(nat \<Rightarrow> bool) \<Rightarrow> string \<Rightarrow> string" where
  "quoteBody tbl s =
    (if s = [] then []
     else
       let (r, width) = (if of_char (hd s) \<ge> (0x80::nat) then DecodeRuneInString s
                         else (of_char (hd s), 1))
       in (if width = 1 \<and> r = RuneError
           then [CHR 0x5C, CHR ''x''] @ hexdigits 2 (of_char (hd s))
           else appendEscapedRune tbl r) @ quoteBody tbl (drop width s))"
  by pat_completeness auto
termination
proof (relation "measure (\<lambda>(tbl, s). length s)")
  show "wf (measure (\<lambda>(tbl, s). length s))"
    by simp
next
  fix tbl :: "nat \<Rightarrow> bool" and s :: string and x :: "nat \<times> nat" and r width :: nat
  assume ne: "s \<noteq> []"
    and x: "x = (if (0x80::nat) \<le> of_char (hd s) then DecodeRuneInString s else (of_char (hd s), 1))"
    and rw: "(r, width) = x"
  have "0 < snd (DecodeRuneInString s)"
    using ne by (cases s) (auto simp: DecodeRuneInString_def Let_def split: option.splits)
  with x rw have "0 < width"
    by (auto split: if_splits simp: prod_eq_iff)
  with ne show "((tbl, drop width s), (tbl, s)) \<in> measure (\<lambda>(tbl, s). length s)"
    by simp
qed

declare quoteBody.simps [simp del]

definition Quote :: "(nat \<Rightarrow> bool) \<Rightarrow> string \<Rightarrow> string" where
  "Quote tbl s = [CHR 0x22] @ quoteBody tbl s @ [CHR 0x22]"

text \<open>Strings of printable ASCII characters other than \<^verbatim>\<open>"\<close> and the backslash.\<close>

definition plainASCII :: "string \<Rightarrow> bool" where
  "plainASCII s =
    list_all (\<lambda>c. (0x20::nat) \<le> of_char c \<and> of_char c \<le> (0x7E::nat) \<and> c \<noteq> CHR 0x22 \<and> c \<noteq> CHR 0x5C) s"

section \<open>protocol.JSONCodec\<close>

text \<open>
  The textual codec hands the message to \<^verbatim>\<open>encoding/json\<close>, which is not part of the
  repository. It is modelled up to the text syntax: what is written on a line is the
  record it denotes, a value of type \<open>json\<close>, and a stream is the list of the records
  written to it. The part the repository decides is the struct tags of \<^verbatim>\<open>Message\<close>: the
  name of each field's key, and \<^verbatim>\<open>omitempty\<close> on all fields but \<^verbatim>\<open>op\<close> and \<^verbatim>\<open>id\<close>. Of the
  library the model keeps what changes the content: a field under \<^verbatim>\<open>omitempty\<close> is left out
  when it is empty (a nil interface for \<^verbatim>\<open>value\<close>), strings are coerced to valid UTF-8, map
  keys are written in increasing order, a key is matched with the name of a field up to
  case, a number read into an interface becomes a float64, a record read into a map
  updates the map key by key, \<^verbatim>\<open>null\<close> leaves a string as it is, and a value of the wrong
  type or a number out of range is skipped and reported once the record has been read.
\<close>

datatype json =
    JNull
  | JBool bool
  | JNumber int
  | JString string
  | JArray "json list"
  | JObject "(string \<times> json) list"

text \<open>
  What a Go string becomes when it is written as a JSON string and read back: each byte
  that does not belong to a valid UTF-8 sequence is replaced by U+FFFD (the loop of
  \<^verbatim>\<open>appendString\<close>).
\<close>

function coerceUTF8 :: "string \<Rightarrow> string" where
  "coerceUTF8 s =
    (if s = [] then []
     else if of_char (hd s) < (0x80::nat) then hd s # coerceUTF8 (tl s)
     else
       let (c, width) = DecodeRuneInString (take (min (length s) 4) s)
       in if c = RuneError \<and> width = 1 then [CHR 0xEF, CHR 0xBF, CHR 0xBD] @ coerceUTF8 (drop width s)
          else take width s @ coerceUTF8 (drop width s))"
  by pat_completeness auto
termination
proof (relation "measure length")
  show "wf (measure length)"
    by simp
next
  fix s :: string
  assume "s \<noteq> []"
  then show "(tl s, s) \<in> measure length"
    by (cases s) simp_all
next
  fix s :: string and x :: "nat \<times> nat" and c width :: nat
  assume ne: "s \<noteq> []"
    and x: "x = DecodeRuneInString (take (min (length s) 4) s)"
    and cs: "(c, width) = x"
  have "take (min (length s) 4) s \<noteq> []"
    using ne by (cases s) simp_all
  then have "0 < snd (DecodeRuneInString (take (min (length s) 4) s))"
    by (cases "take (min (length s) 4) s")
      (auto simp: DecodeRuneInString_def Let_def split: option.splits)
  with x cs have "0 < width"
    by (auto simp: prod_eq_iff)
  with ne show "(drop width s, s) \<in> measure length"
    by simp
  from \<open>0 < width\<close> ne show "(drop width s, s) \<in> measure length"
    by simp
qed

declare coerceUTF8.simps [simp del]

text \<open>
  The record written for a value held in an \<^verbatim>\<open>interface{}\<close>. An integer is written in
  decimal; a float64 is written as the shortest numeral that is read back as the same
  float64, and stands here for that float64.
\<close>

primrec marshalValue :: "gvalue \<Rightarrow> json" where
  "marshalValue VNil = JNull"
| "marshalValue (VBool b) = JBool b"
| "marshalValue (VNumber n) = JNumber n"
| "marshalValue (VString s) = JString (coerceUTF8 s)"
| "marshalValue (VSlice vs) = JArray (map marshalValue vs)"
| "marshalValue (VMap kvs) =
     JObject (map (\<lambda>(k, j). (coerceUTF8 k, j)) (sort_key fst (map (map_prod id marshalValue) kvs)))"

text \<open>
  The value read from a record into a nil \<^verbatim>\<open>interface{}\<close> (\<^verbatim>\<open>valueInterface\<close>): a number
  becomes the float64 nearest to it, and nil when it is out of range; \<open>numbersInRange\<close>
  tells whether every number of the record is in range.
\<close>

primrec unmarshalValue :: "json \<Rightarrow> gvalue" where
  "unmarshalValue JNull = VNil"
| "unmarshalValue (JBool b) = VBool b"
| "unmarshalValue (JNumber n) = (case float64 n of Some f \<Rightarrow> VNumber f | None \<Rightarrow> VNil)"
| "unmarshalValue (JString s) = VString (coerceUTF8 s)"
| "unmarshalValue (JArray js) = VSlice (map unmarshalValue js)"
| "unmarshalValue (JObject kjs) =
     VMap (foldl (\<lambda>m (k, v). AList.update (coerceUTF8 k) v m) [] (map (map_prod id unmarshalValue) kjs))"

primrec numbersInRange :: "json \<Rightarrow> bool" where
  "numbersInRange JNull = True"
| "numbersInRange (JBool b) = True"
| "numbersInRange (JNumber n) = (float64 n \<noteq> None)"
| "numbersInRange (JString s) = True"
| "numbersInRange (JArray js) = list_all (\<lambda>b. b) (map numbersInRange js)"
| "numbersInRange (JObject kjs) = list_all (\<lambda>b. b) (map snd (map (map_prod id numbersInRange) kjs))"

text \<open>The keys of a record, in the order they are written.\<close>

definition keys :: "json \<Rightarrow> string list" where
  "keys j = (case j of JObject kjs \<Rightarrow> map fst kjs | _ \<Rightarrow> [])"

text \<open>The record written for a message: the fields in the order of the struct, under their tags.\<close>

definition marshalMessage :: "Message \<Rightarrow> json" where
  "marshalMessage msg =
    JObject
     ([(''op'', JString (coerceUTF8 (Op msg))),
       (''id'', JString (coerceUTF8 (ID msg)))]
      @ (if Session msg = [] then [] else [(''session'', JString (coerceUTF8 (Session msg)))])
      @ (if Code msg = [] then [] else [(''code'', JString (coerceUTF8 (Code msg)))])
      @ (if Status msg = [] then []
         else [(''status'', JArray (map (\<lambda>s. JString (coerceUTF8 s)) (Status msg)))])
      @ (if Value msg = VNil then [] else [(''value'', marshalValue (Value msg))])
      @ (if Output msg = [] then [] else [(''output'', JString (coerceUTF8 (Output msg)))])
      @ (if ProtocolError msg = [] then []
         else [(''protocol_error'', JString (coerceUTF8 (ProtocolError msg)))])
      @ (if Data msg = [] then [] else [(''data'', marshalValue (VMap (Data msg)))]))"

text \<open>
  \<^verbatim>\<open>foldName\<close>: the key of a record is compared with the names of the fields after
  folding the case of both. ASCII letters are folded to upper case, and so are the two
  runes beyond ASCII whose case folding is an ASCII letter, U+017F to \<open>S\<close> and U+212A to
  \<open>K\<close>. The folding of any other rune beyond ASCII is not ASCII and is left out: the
  bytes are kept, which decides the comparison with the names of the fields as the
  library does, since these are ASCII.
\<close>

function foldName :: "string \<Rightarrow> string" where
  "foldName s =
    (case s of
       [] \<Rightarrow> []
     | c # cs \<Rightarrow>
        if (of_char c :: nat) < 0x80 then
          (if (0x61::nat) \<le> of_char c \<and> of_char c \<le> (0x7A::nat)
           then ''ABCDEFGHIJKLMNOPQRSTUVWXYZ'' ! (of_char c - 0x61) else c) # foldName cs
        else if take 2 s = [CHR 0xC5, CHR 0xBF] then CHR ''S'' # foldName (drop 2 s)
        else if take 3 s = [CHR 0xE2, CHR 0x84, CHR 0xAA] then CHR ''K'' # foldName (drop 3 s)
        else c # foldName cs)"
  by pat_completeness auto
termination
  by (relation "measure length") auto

declare foldName.simps [simp del]

text \<open>
  Reading a record into a message, field by field. The first error is kept and the
  reading goes on; which value and field the error names is not modelled.
\<close>

datatype decode_error = EOF | UnmarshalTypeError

definition saveError :: "decode_error option \<Rightarrow> decode_error option" where
  "saveError e = (case e of None \<Rightarrow> Some UnmarshalTypeError | Some e' \<Rightarrow> Some e')"

text \<open>A string field: \<open>None\<close> when the value is not a string.\<close>

definition unmarshalString :: "string \<Rightarrow> json \<Rightarrow> string option" where
  "unmarshalString old j =
    (case j of JString s \<Rightarrow> Some (coerceUTF8 s) | JNull \<Rightarrow> Some old | _ \<Rightarrow> None)"

text \<open>
  A slice of strings is read element by element into the elements it has, and into
  empty strings beyond them (what a slice with spare capacity holds beyond its length is
  not modelled); an element of the wrong type leaves its target as it is.
\<close>

primrec unmarshalElements :: "json list \<Rightarrow> string list \<Rightarrow> string list" where
  "unmarshalElements [] old = []"
| "unmarshalElements (j # js) old =
     (let target = (case old of [] \<Rightarrow> [] | s # _ \<Rightarrow> s)
      in (case unmarshalString target j of Some s \<Rightarrow> s | None \<Rightarrow> target)
         # unmarshalElements js (tl old))"

definition unmarshalStrings :: "string list \<Rightarrow> json \<Rightarrow> string list \<times> bool" where
  "unmarshalStrings old j =
    (case j of
       JArray js \<Rightarrow>
         (unmarshalElements js old, list_all (\<lambda>e. unmarshalString [] e \<noteq> None) js)
     | JNull \<Rightarrow> ([], True)
     | _ \<Rightarrow> (old, False))"

definition unmarshalMap :: "(string \<times> gvalue) list \<Rightarrow> json \<Rightarrow> (string \<times> gvalue) list \<times> bool" where
  "unmarshalMap old j =
    (case j of
       JObject kjs \<Rightarrow>
         (foldl (\<lambda>m (k, v). AList.update (coerceUTF8 k) v m) old
            (map (map_prod id unmarshalValue) kjs),
          numbersInRange j)
     | JNull \<Rightarrow> ([], True)
     | _ \<Rightarrow> (old, False))"

text \<open>
  The field \<^verbatim>\<open>value\<close>, an \<^verbatim>\<open>interface{}\<close>: a number out of range leaves it as it is, any
  other value replaces it.
\<close>

definition unmarshalInterface :: "gvalue \<Rightarrow> json \<Rightarrow> gvalue \<times> bool" where
  "unmarshalInterface old j =
    (case j of
       JNumber n \<Rightarrow> (case float64 n of Some f \<Rightarrow> (VNumber f, True) | None \<Rightarrow> (old, False))
     | _ \<Rightarrow> (unmarshalValue j, numbersInRange j))"

definition storeString ::
  "(Message \<Rightarrow> string) \<Rightarrow> (string \<Rightarrow> Message \<Rightarrow> Message) \<Rightarrow> json \<Rightarrow>
   Message \<times> decode_error option \<Rightarrow> Message \<times> decode_error option" where
  "storeString get put j st =
    (case unmarshalString (get (fst st)) j of
       Some s \<Rightarrow> (put s (fst st), snd st)
     | None \<Rightarrow> (fst st, saveError (snd st)))"

definition storeField ::
  "Message \<times> decode_error option \<Rightarrow> string \<times> json \<Rightarrow> Message \<times> decode_error option" where
  "storeField st kj =
    (let (k, j) = kj; (msg, e) = st; name = foldName (coerceUTF8 k) in
     if name = ''OP'' then storeString Op (\<lambda>s m. m\<lparr>Op := s\<rparr>) j st
     else if name = ''ID'' then storeString ID (\<lambda>s m. m\<lparr>ID := s\<rparr>) j st
     else if name = ''SESSION'' then storeString Session (\<lambda>s m. m\<lparr>Session := s\<rparr>) j st
     else if name = ''CODE'' then storeString Code (\<lambda>s m. m\<lparr>Code := s\<rparr>) j st
     else if name = ''STATUS'' then
       (case unmarshalStrings (Status msg) j of
          (ss, ok) \<Rightarrow> (msg\<lparr>Status := ss\<rparr>, if ok then e else saveError e))
     else if name = ''VALUE'' then
       (case unmarshalInterface (Value msg) j of
          (v, ok) \<Rightarrow> (msg\<lparr>Value := v\<rparr>, if ok then e else saveError e))
     else if name = ''OUTPUT'' then storeString Output (\<lambda>s m. m\<lparr>Output := s\<rparr>) j st
     else if name = ''PROTOCOL_ERROR'' then
       storeString ProtocolError (\<lambda>s m. m\<lparr>ProtocolError := s\<rparr>) j st
     else if name = ''DATA'' then
       (case unmarshalMap (Data msg) j of
          (d, ok) \<Rightarrow> (msg\<lparr>Data := d\<rparr>, if ok then e else saveError e))
     else st)"

definition unmarshalMessage :: "Message \<Rightarrow> json \<Rightarrow> Message \<times> decode_error option" where
  "unmarshalMessage msg j =
    (case j of
       JObject kjs \<Rightarrow> foldl storeField (msg, None) kjs
     | JNull \<Rightarrow> (msg, None)
     | _ \<Rightarrow> (msg, Some UnmarshalTypeError))"

text \<open>
  \<^verbatim>\<open>JSONCodec.Encode\<close> and \<^verbatim>\<open>JSONCodec.Decode\<close> over a stream: \<^verbatim>\<open>Encode\<close> appends one record,
  \<^verbatim>\<open>Decode\<close> reads the first into the message it is given and fails with \<^verbatim>\<open>io.EOF\<close> on an
  empty stream.
\<close>

type_synonym stream = "json list"

definition JSONCodec_Encode :: "stream \<Rightarrow> Message \<Rightarrow> stream" where
  "JSONCodec_Encode rw msg = rw @ [marshalMessage msg]"

definition JSONCodec_Decode :: "stream \<Rightarrow> Message \<Rightarrow> decode_error option \<times> Message \<times> stream" where
  "JSONCodec_Decode rw msg =
    (case rw of
       [] \<Rightarrow> (Some EOF, msg, [])
     | j # rest \<Rightarrow> (case unmarshalMessage msg j of (msg', e) \<Rightarrow> (e, msg', rest)))"

text \<open>What \<^verbatim>\<open>Decode\<close> reads into a fresh message from the record written for a message.\<close>

definition readBack :: "Message \<Rightarrow> Message" where
  "readBack M =
    \<lparr>Op = coerceUTF8 (coerceUTF8 (Op M)),
     ID = coerceUTF8 (coerceUTF8 (ID M)),
     Session = coerceUTF8 (coerceUTF8 (Session M)),
     Code = coerceUTF8 (coerceUTF8 (Code M)),
     Status = map (\<lambda>s. coerceUTF8 (coerceUTF8 s)) (Status M),
     Value = unmarshalValue (marshalValue (Value M)),
     Output = coerceUTF8 (coerceUTF8 (Output M)),
     ProtocolError = coerceUTF8 (coerceUTF8 (ProtocolError M)),
     Data = fst (unmarshalMap [] (marshalValue (VMap (Data M))))\<rparr>"

section \<open>operations.Handler\<close>

text \<open>
  The evaluator returns the result, the captured output and an error. The host the handler
  runs on provides \<^verbatim>\<open>os.ReadFile\<close> (the error text, or the contents of the file) and the
  Unicode tables behind \<^verbatim>\<open>%q\<close>.
\<close>

type_synonym EvaluatorFunc = "string \<Rightarrow> gvalue \<times> string \<times> error"

record host =
  ReadFile :: "string \<Rightarrow> string + string"
  PrintTable :: "nat \<Rightarrow> bool"

text \<open>A Go func value may be nil: \<open>None\<close>.\<close>

record Handler =
  evaluator :: "EvaluatorFunc option"

definition NewHandler :: "EvaluatorFunc option \<Rightarrow> Handler" where
  "NewHandler ev = \<lparr>evaluator = ev\<rparr>"

definition handleEval :: "Handler \<Rightarrow> Message \<Rightarrow> Message \<Rightarrow> panic + Message" where
  "handleEval h req resp =
    (if Code req = [] then
       Inr (resp\<lparr>Status := [''error''],
                 ProtocolError := ''eval operation requires 'code' field''\<rparr>)
     else
       case evaluator h of
         None \<Rightarrow> Inl NilDereference
       | Some ev \<Rightarrow>
          (case ev (Code req) of
             (result, output, Some err) \<Rightarrow>
               Inr (resp\<lparr>Status := [''error''], ProtocolError := ''evaluator error: '' @ err\<rparr>)
           | (result, output, None) \<Rightarrow>
               Inr (resp\<lparr>Value := result, Output := output, Status := [''done'']\<rparr>)))"

text \<open>The path \<^verbatim>\<open>handleLoadFile\<close> takes from the request: \<^verbatim>\<open>data.file\<close>, else \<^verbatim>\<open>data.file-path\<close>.\<close>

definition loadFilePath :: "Message \<Rightarrow> string" where
  "loadFilePath req =
    (case map_of (Data req) ''file'' of
       Some (VString fp) \<Rightarrow> fp
     | _ \<Rightarrow> (case map_of (Data req) ''file-path'' of
               Some (VString fp) \<Rightarrow> fp
             | _ \<Rightarrow> []))"

definition handleLoadFile :: "host \<Rightarrow> Handler \<Rightarrow> Message \<Rightarrow> Message \<Rightarrow> panic + Message" where
  "handleLoadFile env h req resp =
    (let filePath = loadFilePath req in
       if filePath = [] then
         Inr (resp\<lparr>Status := [''error''],
                   ProtocolError :=
                     ''load-file operation requires 'file' or 'file-path' in data field''\<rparr>)
       else
         case ReadFile env filePath of
           Inl err \<Rightarrow>
             Inr (resp\<lparr>Status := [''error''], ProtocolError := ''failed to read file: '' @ err\<rparr>)
         | Inr code \<Rightarrow>
            (case evaluator h of
               None \<Rightarrow> Inl NilDereference
             | Some ev \<Rightarrow>
                (case ev code of
                   (result, output, Some err) \<Rightarrow>
                     Inr (resp\<lparr>Status := [''error''],
                               ProtocolError := ''evaluator error: '' @ err\<rparr>)
                 | (result, output, None) \<Rightarrow>
                     Inr (resp\<lparr>Value := result, Output := output, Status := [''done'']\<rparr>))))"

definition handleDescribe :: "Message \<Rightarrow> Message \<Rightarrow> Message" where
  "handleDescribe req resp =
    resp\<lparr>Status := [''done''],
         Data :=
           [(''versions'', VMap [(''zylisp'', VString ''0.1.0''), (''protocol'', VString ''0.1.0'')]),
            (''ops'', VSlice [VString ''eval'', VString ''load-file'', VString ''describe'',
                             VString ''interrupt'']),
            (''transports'', VSlice [VString ''in-process'', VString ''unix'', VString ''tcp''])]\<rparr>"

definition handleInterrupt :: "Message \<Rightarrow> Message \<Rightarrow> Message" where
  "handleInterrupt req resp =
    resp\<lparr>Status := [''error''],
         ProtocolError := ''interrupt operation not yet fully implemented''\<rparr>"

definition futureOps :: "string list" where
  "futureOps = [''complete'', ''info'', ''eldoc'', ''lookup'', ''stdin'', ''ls-sessions'',
                ''clone'', ''close'']"

definition Handle :: "host \<Rightarrow> Handler \<Rightarrow> Message \<Rightarrow> panic + Message" where
  "Handle env h req =
    (let resp = zeroMessage\<lparr>ID := ID req\<rparr> in
     if Op req = ''eval'' then handleEval h req resp
     else if Op req = ''load-file'' then handleLoadFile env h req resp
     else if Op req = ''describe'' then Inr (handleDescribe req resp)
     else if Op req = ''interrupt'' then Inr (handleInterrupt req resp)
     else if Op req \<in> set futureOps then
       Inr (resp\<lparr>Status := [''error''],
                 ProtocolError :=
                   ''operation '' @ Quote (PrintTable env) (Op req) @ '' not yet implemented''\<rparr>)
     else
       Inr (resp\<lparr>Status := [''error''],
                 ProtocolError := ''unknown operation: '' @ Quote (PrintTable env) (Op req)\<rparr>))"

subsection \<open>Test fixtures\<close>

text \<open>\<^verbatim>\<open>mockEvaluator\<close> of the in-process transport's tests.\<close>

definition mockEvaluator :: EvaluatorFunc where
  \<open>mockEvaluator code =
    (if code = ''(+ 1 2)'' then (VNumber 3, [], None)
     else if code = ''(println "hello")'' then (VNil, ''hello\<newline>'', None)
     else if code = ''(error "test error")'' then
       (VMap [(''error'', VString ''test error''), (''type'', VString ''user-error'')], [], None)
     else if code = ''(catastrophic)'' then (VNil, [], Some ''catastrophic failure'')
     else (VString code, [], None))\<close>

text \<open>An \<^verbatim>\<open>eval\<close> request, as the clients build it.\<close>

definition evalRequest :: "string \<Rightarrow> string \<Rightarrow> Message" where
  "evalRequest i code = zeroMessage\<lparr>Op := ''eval'', ID := i, Code := code\<rparr>"

text \<open>A \<^verbatim>\<open>load-file\<close> request, and the error-as-data value of the tests.\<close>

definition loadFileRequest :: "string \<Rightarrow> string \<Rightarrow> Message" where
  "loadFileRequest i path = zeroMessage\<lparr>Op := ''load-file'', ID := i, Data := [(''file'', VString path)]\<rparr>"

definition testError :: gvalue where
  "testError = VMap [(''error'', VString ''test error''), (''type'', VString ''user-error'')]"

text \<open>The message with all fields of the codec's tests, and the response to \<^verbatim>\<open>(+ 1 2)\<close>.\<close>

definition allFields :: Message where
  \<open>allFields =
    \<lparr>Op = ''eval'', ID = ''5'', Session = ''session-123'', Code = ''(println "test")'',
     Status = [''done''], Value = VNil, Output = ''test\<newline>'', ProtocolError = [],
     Data = [(''key'', VString ''value'')]\<rparr>\<close>

definition evalResponse :: Message where
  "evalResponse = zeroMessage\<lparr>ID := ''1'', Value := VNumber 3, Status := [''done'']\<rparr>"

text \<open>A host with one file, and no printable rune beyond Latin-1.\<close>

definition testHost :: host where
  \<open>testHost =
    \<lparr>ReadFile = (\<lambda>p. if p = ''/tmp/a.zy'' then Inr ''(error "test error")''
                       else Inl (''open '' @ p @ '': no such file or directory'')),
     PrintTable = (\<lambda>r. False)\<rparr>\<close>

section \<open>Results and decimal identifiers\<close>

text \<open>
  The packages \<^verbatim>\<open>repl\<close>, \<^verbatim>\<open>tcp\<close> and \<^verbatim>\<open>inprocess\<close> each declare the same struct
  \<^verbatim>\<open>Result\<close>; one record stands for the three.
\<close>

record Result =
  ResultID :: string
  ResultValue :: gvalue
  ResultOutput :: string
  ResultStatus :: "string list"

definition messageToResult :: "Message \<Rightarrow> Result" where
  "messageToResult msg =
    \<lparr>ResultID = ID msg, ResultValue = Value msg, ResultOutput = Output msg,
     ResultStatus = Status msg\<rparr>"

text \<open>\<^verbatim>\<open>fmt.Sprintf("%d", n)\<close> for an unsigned integer.\<close>

fun decimal :: "nat \<Rightarrow> string" where
  "decimal n =
    (if n < 10 then [''0123456789'' ! n]
     else decimal (n div 10) @ [''0123456789'' ! (n mod 10)])"

declare decimal.simps [simp del]

section \<open>The TCP client and the codec factory\<close>

text \<open>
  A connection is known by the network and the address it was dialled to. The network is
  a parameter: what a dial returns, and what becomes of a request written to a
  connection (the write fails, the read of the response fails, or a response arrives).
  The context passed to the clients only bounds the dial; its effect is part of the
  network's answer.
\<close>

type_synonym conn = "string \<times> string"

datatype wire_outcome = SendFailed string | ReceiveFailed string | Received Message

record network =
  DialContext :: "string \<Rightarrow> string \<Rightarrow> string + conn"
  Exchange :: "conn \<Rightarrow> Message \<Rightarrow> wire_outcome"

datatype codec = JSONCodec conn | MessagePackCodec conn

definition NewCodec :: "string \<Rightarrow> conn \<Rightarrow> string + codec" where
  "NewCodec format rw =
    (if format = ''json'' then Inr (JSONCodec rw)
     else if format = ''msgpack'' then Inr (MessagePackCodec rw)
     else Inl (''unsupported codec format: '' @ format))"

record tcp_Client =
  tcp_conn :: "conn option"
  tcp_codec :: "codec option"
  tcp_msgID :: "64 word"

definition tcp_NewClient :: "string \<Rightarrow> tcp_Client" where
  "tcp_NewClient codecFormat = \<lparr>tcp_conn = None, tcp_codec = None, tcp_msgID = 0\<rparr>"

text \<open>
  \<open>socket_Connect\<close> is \<^verbatim>\<open>Client.Connect\<close> of package tcp with the name of the network left
  open; \<open>tcp_Connect\<close> is the method itself.
\<close>

definition socket_Connect ::
  "string \<Rightarrow> network \<Rightarrow> tcp_Client \<Rightarrow> string \<Rightarrow> string \<Rightarrow> error \<times> tcp_Client" where
  "socket_Connect nw net c addr codecFormat =
    (case DialContext net nw addr of
       Inl err \<Rightarrow> (Some (''failed to connect to '' @ nw @ '' server: '' @ err), c)
     | Inr cn \<Rightarrow>
        (let c = c\<lparr>tcp_conn := Some cn\<rparr> in
         case NewCodec codecFormat cn of
           Inl err \<Rightarrow> (Some (''failed to create codec: '' @ err), c)
         | Inr cd \<Rightarrow> (None, c\<lparr>tcp_codec := Some cd\<rparr>)))"

definition tcp_Connect :: "network \<Rightarrow> tcp_Client \<Rightarrow> string \<Rightarrow> string \<Rightarrow> error \<times> tcp_Client" where
  "tcp_Connect = socket_Connect ''tcp''"

text \<open>
  \<^verbatim>\<open>Client.Eval\<close> of package tcp: the outcome (a panic, or an error or a result) and the
  client with its counter advanced.
\<close>

definition tcp_Eval ::
  "network \<Rightarrow> tcp_Client \<Rightarrow> string \<Rightarrow> panic + ((string + Result) \<times> tcp_Client)" where
  "tcp_Eval net c code =
    (let msgID = tcp_msgID c + 1;
         c = c\<lparr>tcp_msgID := msgID\<rparr>;
         req = zeroMessage\<lparr>Op := ''eval'', ID := decimal (unat msgID), Code := code\<rparr>
     in case tcp_codec c of
          None \<Rightarrow> Inl NilDereference
        | Some (MessagePackCodec cn) \<Rightarrow> Inl (Panicked ''MessagePack codec not yet implemented'')
        | Some (JSONCodec cn) \<Rightarrow>
           (case Exchange net cn req of
              SendFailed err \<Rightarrow> Inr (Inl (''failed to send request: '' @ err), c)
            | ReceiveFailed err \<Rightarrow> Inr (Inl (''failed to receive response: '' @ err), c)
            | Received resp \<Rightarrow> Inr (Inr (messageToResult resp), c)))"

section \<open>The Unix-socket client\<close>

text \<open>
  Modelled from the spec: the client of package \<^verbatim>\<open>transport/unix\<close>, which is not among the
  sources. The socket transports are structurally identical and differ only in the dial
  primitive (a filesystem path instead of host and port), so the Unix client is the TCP
  client dialling the network \<^verbatim>\<open>unix\<close>.
\<close>

definition unix_NewClient :: "string \<Rightarrow> tcp_Client" where
  "unix_NewClient codecFormat = \<lparr>tcp_conn = None, tcp_codec = None, tcp_msgID = 0\<rparr>"

definition unix_Connect :: "network \<Rightarrow> tcp_Client \<Rightarrow> string \<Rightarrow> string \<Rightarrow> error \<times> tcp_Client" where
  "unix_Connect = socket_Connect ''unix''"

definition unix_Eval ::
  "network \<Rightarrow> tcp_Client \<Rightarrow> string \<Rightarrow> panic + ((string + Result) \<times> tcp_Client)" where
  "unix_Eval = tcp_Eval"

section \<open>The in-process server\<close>

text \<open>
  A buffered channel of messages: its buffer (the oldest message first), its capacity and
  whether it has been closed. The channels that \<^verbatim>\<open>registerClient\<close> makes are shared
  between the server's registry and the clients, so they live in a store \<open>chans\<close> kept
  with the server, and both sides hold the index of the channel. \<open>ctx\<close> is the server's
  context: \<open>None\<close> before \<^verbatim>\<open>Start\<close>, then whether it has been cancelled.
\<close>

record chan =
  buf :: "Message list"
  cap :: nat
  closed :: bool

record inprocess_Server =
  handler :: Handler
  requests :: chan
  chans :: "chan list"
  clients :: "string \<rightharpoonup> nat"
  ctx :: "bool option"

definition inprocess_NewServer :: "EvaluatorFunc option \<Rightarrow> inprocess_Server" where
  "inprocess_NewServer ev =
    \<lparr>handler = NewHandler ev,
     requests = \<lparr>buf = [], cap = 100, closed = False\<rparr>,
     chans = [],
     clients = Map.empty,
     ctx = None\<rparr>"

text \<open>
  The clients and the goroutine of the server run concurrently and meet at the channels.
  The model runs them as atomic steps on the shared state, one step for each point where
  the code can block: a step blocks (it is not enabled in that state), panics or returns.
  A \<^verbatim>\<open>select\<close> with two cases takes the one that is ready; when both are, Go picks one at
  random, which is the argument \<open>pick\<close> of the step.
\<close>

datatype 'a outcome = Blocks | Panics panic | Returns 'a

datatype choice = First | Second

definition select2 :: "choice \<Rightarrow> bool \<Rightarrow> bool \<Rightarrow> choice option" where
  "select2 pick ready1 ready2 =
    (if ready1 \<and> ready2 then Some pick
     else if ready1 then Some First
     else if ready2 then Some Second
     else None)"

text \<open>The channel behind an index of the store.\<close>

definition chanAt :: "inprocess_Server \<Rightarrow> nat \<Rightarrow> chan option" where
  "chanAt s i = (if i < length (chans s) then Some (chans s ! i) else None)"

text \<open>
  \<^verbatim>\<open>Start\<close> derives the server's context from its parent's (\<open>parentDone\<close>: the parent is
  already cancelled), launches \<^verbatim>\<open>processRequests\<close> and waits for the cancellation.
\<close>

definition inprocess_Start :: "bool \<Rightarrow> inprocess_Server \<Rightarrow> inprocess_Server" where
  "inprocess_Start parentDone s = s\<lparr>ctx := Some parentDone\<rparr>"

text \<open>
  The goroutine running \<^verbatim>\<open>processRequests\<close> is at the outer \<^verbatim>\<open>select\<close> (\<open>Idle\<close>), at the
  inner one with a response and the channel it looked up (\<open>Sending\<close>), or has returned.
  One step takes it from one \<^verbatim>\<open>select\<close> to the next.
\<close>

datatype worker = Idle | Sending nat Message | Exited

definition processRequests ::
  "host \<Rightarrow> choice \<Rightarrow> worker \<times> inprocess_Server \<Rightarrow> (worker \<times> inprocess_Server) outcome" where
  "processRequests env pick ws =
    (let (w, s) = ws in
     case ctx s of
       None \<Rightarrow> Panics NilDereference
     | Some done \<Rightarrow>
        (case w of
           Exited \<Rightarrow> Blocks
         | Idle \<Rightarrow>
            (let q = requests s in
             case select2 pick done (buf q \<noteq> [] \<or> closed q) of
               None \<Rightarrow> Blocks
             | Some First \<Rightarrow> Returns (Exited, s)
             | Some Second \<Rightarrow>
                (case buf q of
                   [] \<Rightarrow> Returns (Exited, s)
                 | req # rest \<Rightarrow>
                    (let s = s\<lparr>requests := q\<lparr>buf := rest\<rparr>\<rparr>;
                         clientID = Session req
                     in if clientID = [] then Returns (Idle, s)
                        else
                          case Handle env (handler s) req of
                            Inl p \<Rightarrow> Panics p
                          | Inr resp \<Rightarrow>
                             (case clients s clientID of
                                None \<Rightarrow> Returns (Idle, s)
                              | Some i \<Rightarrow> Returns (Sending i resp, s)))))
         | Sending i resp \<Rightarrow>
            (case chanAt s i of
               None \<Rightarrow> Panics NilDereference
             | Some ch \<Rightarrow>
                (case select2 pick (closed ch \<or> length (buf ch) < cap ch) done of
                   None \<Rightarrow> Blocks
                 | Some First \<Rightarrow>
                     if closed ch then Panics (Panicked ''send on closed channel'')
                     else Returns (Idle, s\<lparr>chans := (chans s)[i := ch\<lparr>buf := buf ch @ [resp]\<rparr>]\<rparr>)
                 | Some Second \<Rightarrow> Returns (Exited, s)))))"

definition registerClient :: "inprocess_Server \<Rightarrow> string \<Rightarrow> inprocess_Server \<times> nat" where
  "registerClient s clientID =
    (let respChan = length (chans s) in
     (s\<lparr>chans := chans s @ [\<lparr>buf = [], cap = 10, closed = False\<rparr>],
        clients := (clients s)(clientID \<mapsto> respChan)\<rparr>,
      respChan))"

definition sendRequest :: "choice \<Rightarrow> inprocess_Server \<Rightarrow> Message \<Rightarrow> (error \<times> inprocess_Server) outcome" where
  "sendRequest pick s req =
    (case ctx s of
       None \<Rightarrow> Panics NilDereference
     | Some done \<Rightarrow>
        (let q = requests s in
         case select2 pick (closed q \<or> length (buf q) < cap q) done of
           None \<Rightarrow> Blocks
         | Some First \<Rightarrow>
             if closed q then Panics (Panicked ''send on closed channel'')
             else Returns (None, s\<lparr>requests := q\<lparr>buf := buf q @ [req]\<rparr>\<rparr>)
         | Some Second \<Rightarrow> Returns (Some ''server stopped'', s)))"

text \<open>
  The in-process client. \<open>server\<close> tells whether the pointer to the server is set; the
  server itself is the one of the state. \<^verbatim>\<open>NewClient\<close> draws the client's number from the
  counter of the package.
\<close>

record inprocess_Client =
  server :: bool
  responses :: "nat option"
  clientID :: string
  msgID :: "64 word"

definition inprocess_NewClient :: "64 word \<Rightarrow> 64 word \<times> inprocess_Client" where
  "inprocess_NewClient clientIDCounter =
    (let n = clientIDCounter + 1 in
     (n, \<lparr>server = False, responses = None, clientID = ''client-'' @ decimal (unat n), msgID = 0\<rparr>))"

definition SetServer :: "inprocess_Client \<Rightarrow> inprocess_Client" where
  "SetServer c = c\<lparr>server := True\<rparr>"

text \<open>The address given to \<^verbatim>\<open>Connect\<close>: the server, a string, or a value of another type (its name).\<close>

datatype inprocess_addr = ServerAddr | StringAddr string | OtherAddr string

definition inprocess_Connect ::
  "host \<Rightarrow> inprocess_Server \<Rightarrow> inprocess_Client \<Rightarrow> inprocess_addr \<Rightarrow>
   error \<times> inprocess_Server \<times> inprocess_Client" where
  "inprocess_Connect env s c0 addr =
    (let register = (\<lambda>c. case registerClient s (clientID c) of
                          (s', respChan) \<Rightarrow> (None, s', c\<lparr>responses := Some respChan\<rparr>))
     in case addr of
          ServerAddr \<Rightarrow> register (c0\<lparr>server := True\<rparr>)
        | StringAddr v \<Rightarrow>
            if v \<noteq> ''in-process'' \<and> v \<noteq> [] then
              (Some (''invalid in-process address: '' @ Quote (PrintTable env) v), s, c0)
            else if \<not> server c0 then (Some ''in-process client requires server to be set'', s, c0)
            else register c0
        | OtherAddr ty \<Rightarrow> (Some (''invalid address type for in-process client: '' @ ty), s, c0))"

text \<open>
  \<^verbatim>\<open>Eval\<close> blocks twice: \<open>Eval_send\<close> runs it up to the request being queued (or refused),
  \<open>Eval_wait\<close> is the \<^verbatim>\<open>select\<close> on the response channel and the caller's context, of which
  \<open>ctxErr\<close> is the error once it is done.
\<close>

definition Eval_send ::
  "choice \<Rightarrow> inprocess_Server \<Rightarrow> inprocess_Client \<Rightarrow> string \<Rightarrow>
   (error \<times> inprocess_Server \<times> inprocess_Client) outcome" where
  "Eval_send pick s c0 code =
    (let n = msgID c0 + 1;
         c = c0\<lparr>msgID := n\<rparr>;
         req = zeroMessage\<lparr>Op := ''eval'', ID := decimal (unat n), Session := clientID c, Code := code\<rparr>
     in if \<not> server c then Panics NilDereference
        else case sendRequest pick s req of
               Blocks \<Rightarrow> Blocks
             | Panics p \<Rightarrow> Panics p
             | Returns (err, s') \<Rightarrow> Returns (err, s', c))"

definition Eval_wait ::
  "choice \<Rightarrow> error \<Rightarrow> inprocess_Server \<Rightarrow> inprocess_Client \<Rightarrow>
   ((string + Result) \<times> inprocess_Server) outcome" where
  "Eval_wait pick ctxErr s c =
    (case responses c of
       None \<Rightarrow> (case ctxErr of None \<Rightarrow> Blocks | Some err \<Rightarrow> Returns (Inl err, s))
     | Some i \<Rightarrow>
        (case chanAt s i of
           None \<Rightarrow> Panics NilDereference
         | Some ch \<Rightarrow>
            (case select2 pick (buf ch \<noteq> [] \<or> closed ch) (ctxErr \<noteq> None) of
               None \<Rightarrow> Blocks
             | Some First \<Rightarrow>
                (case buf ch of
                   [] \<Rightarrow> Panics NilDereference
                 | resp # rest \<Rightarrow>
                     Returns (Inr (messageToResult resp), s\<lparr>chans := (chans s)[i := ch\<lparr>buf := rest\<rparr>]\<rparr>))
             | Some Second \<Rightarrow>
                (case ctxErr of None \<Rightarrow> Blocks | Some err \<Rightarrow> Returns (Inl err, s)))))"

text \<open>The request that \<^verbatim>\<open>Eval\<close> builds for a client, and a channel after a send.\<close>

definition evalMessage :: "inprocess_Client \<Rightarrow> string \<Rightarrow> Message" where
  "evalMessage c code =
    zeroMessage\<lparr>Op := ''eval'', ID := decimal (unat (msgID c + 1)), Session := clientID c, Code := code\<rparr>"

definition push :: "chan \<Rightarrow> Message \<Rightarrow> chan" where
  "push ch m = ch\<lparr>buf := buf ch @ [m]\<rparr>"

section \<open>Package repl: the server factory and the universal client\<close>

record ServerConfig =
  Transport :: string
  Addr :: string
  Codec :: string
  Evaluator :: "EvaluatorFunc option"

text \<open>
  A server as its constructor leaves it: \<^verbatim>\<open>tcp.NewServer\<close> keeps the address, the codec
  name and a handler for the evaluator, and has no listener and no connection yet.
\<close>

datatype Server =
    InProcessServer inprocess_Server
  | UnixServer string string Handler
  | TCPServer string string Handler

definition tcp_NewServer :: "string \<Rightarrow> string \<Rightarrow> EvaluatorFunc option \<Rightarrow> Server" where
  "tcp_NewServer a cd ev = TCPServer a cd (NewHandler ev)"

text \<open>
  Modelled from the spec: \<^verbatim>\<open>unix.NewServer\<close>, of the package \<^verbatim>\<open>transport/unix\<close> that is not
  among the sources. The two socket servers are structurally identical, so it keeps its
  arguments as \<^verbatim>\<open>tcp.NewServer\<close> does; like it, it returns no error.
\<close>

definition unix_NewServer :: "string \<Rightarrow> string \<Rightarrow> EvaluatorFunc option \<Rightarrow> Server" where
  "unix_NewServer a cd ev = UnixServer a cd (NewHandler ev)"

definition NewServer :: "ServerConfig \<Rightarrow> string + Server" where
  "NewServer config0 =
    (let config = (if Codec config0 = [] then config0\<lparr>Codec := ''json''\<rparr> else config0) in
     if Transport config = ''in-process'' \<or> Transport config = [] then
       Inr (InProcessServer (inprocess_NewServer (Evaluator config)))
     else if Transport config = ''unix'' then
       (if Addr config = [] then Inl ''unix transport requires Addr''
        else Inr (unix_NewServer (Addr config) (Codec config) (Evaluator config)))
     else if Transport config = ''tcp'' then
       (if Addr config = [] then Inl ''tcp transport requires Addr''
        else Inr (tcp_NewServer (Addr config) (Codec config) (Evaluator config)))
     else Inl (''unknown transport: '' @ Transport config))"

text \<open>
  The universal client: the transport tag and the transport-specific client behind
  \<^verbatim>\<open>impl\<close>, an interface value that is nil (\<open>None\<close>) or holds a client of one of the two
  dynamic types.
\<close>

datatype clientImpl = UnixClient tcp_Client | TCPClient tcp_Client

record UniversalClient =
  transport :: string
  impl :: "clientImpl option"

definition NewClient :: UniversalClient where
  "NewClient = \<lparr>transport = [], impl = None\<rparr>"

definition detectTransport :: "string \<Rightarrow> string \<times> string" where
  "detectTransport addr =
    (if length addr \<ge> 7 \<and> take 7 addr = ''unix://'' then (''unix'', ''json'')
     else if length addr \<ge> 6 \<and> take 6 addr = ''tcp://'' then (''tcp'', ''json'')
     else if addr = [] \<or> addr = ''in-process'' then (''in-process'', [])
     else if length addr > 0 \<and> (hd addr = CHR ''/'' \<or> hd addr = CHR ''.'') then (''unix'', ''json'')
     else (''tcp'', ''json''))"

definition Connect :: "network \<Rightarrow> UniversalClient \<Rightarrow> string \<Rightarrow> error \<times> UniversalClient" where
  "Connect net c0 addr =
    (let (tr, cd) = detectTransport addr;
         c = c0\<lparr>transport := tr\<rparr>
     in
       if tr = ''in-process'' then
         (Some ''in-process transport not supported via universal client'', c)
       else if tr = ''unix'' then
         (case unix_Connect net (unix_NewClient cd) addr cd of
            (Some err, client) \<Rightarrow> (Some err, c)
          | (None, client) \<Rightarrow> (None, c\<lparr>impl := Some (UnixClient client)\<rparr>))
       else if tr = ''tcp'' then
         (let addr = (if length addr > 6 \<and> take 6 addr = ''tcp://'' then drop 6 addr else addr) in
          case tcp_Connect net (tcp_NewClient cd) addr cd of
            (Some err, client) \<Rightarrow> (Some err, c)
          | (None, client) \<Rightarrow> (None, c\<lparr>impl := Some (TCPClient client)\<rparr>))
       else (Some (''unknown transport: '' @ tr), c))"

definition toResult :: "Result \<Rightarrow> Result" where
  "toResult result =
    \<lparr>ResultID = ResultID result, ResultValue = ResultValue result,
     ResultOutput = ResultOutput result, ResultStatus = ResultStatus result\<rparr>"

definition Eval ::
  "network \<Rightarrow> UniversalClient \<Rightarrow> string \<Rightarrow> panic + ((string + Result) \<times> UniversalClient)" where
  "Eval net c code =
    (if transport c = ''unix'' then
       (case impl c of
          Some (UnixClient client) \<Rightarrow>
            (case unix_Eval net client code of
               Inl p \<Rightarrow> Inl p
             | Inr (Inl err, client') \<Rightarrow> Inr (Inl err, c\<lparr>impl := Some (UnixClient client')\<rparr>)
             | Inr (Inr result, client') \<Rightarrow>
                 Inr (Inr (toResult result), c\<lparr>impl := Some (UnixClient client')\<rparr>))
        | _ \<Rightarrow> Inl InterfaceConversion)
     else if transport c = ''tcp'' then
       (case impl c of
          Some (TCPClient client) \<Rightarrow>
            (case tcp_Eval net client code of
               Inl p \<Rightarrow> Inl p
             | Inr (Inl err, client') \<Rightarrow> Inr (Inl err, c\<lparr>impl := Some (TCPClient client')\<rparr>)
             | Inr (Inr result, client') \<Rightarrow>
                 Inr (Inr (toResult result), c\<lparr>impl := Some (TCPClient client')\<rparr>))
        | _ \<Rightarrow> Inl InterfaceConversion)
     else Inr (Inl ''not connected'', c))"

text \<open>A network on which exactly one address accepts connections, and nothing answers.\<close>

definition listeningOn :: "string \<Rightarrow> string \<Rightarrow> network" where
  "listeningOn nw a =
    \<lparr>DialContext = (\<lambda>n b. if n = nw \<and> b = a then Inr (n, b)
                            else Inl (''dial '' @ n @ '' '' @ b @ '': connection refused'')),
     Exchange = (\<lambda>cn req. ReceiveFailed ''EOF'')\<rparr>"

text \<open>Reading a decimal numeral.\<close>

definition undecimal :: "string \<Rightarrow> nat" where
  "undecimal s = foldl (\<lambda>a c. 10 * a + (of_char c - 48)) 0 s"

text \<open>A started server with the mock evaluator and the first client, connected to it.\<close>

definition freshServer :: inprocess_Server where
  "freshServer =
    fst (snd (inprocess_Connect testHost (inprocess_Start False (inprocess_NewServer (Some mockEvaluator)))
                (snd (inprocess_NewClient 0)) ServerAddr))"

definition freshClient :: inprocess_Client where
  "freshClient =
    snd (snd (inprocess_Connect testHost (inprocess_Start False (inprocess_NewServer (Some mockEvaluator)))
                (snd (inprocess_NewClient 0)) ServerAddr))"

section \<open>Properties of the library functions\<close>

subsection \<open>Valid UTF-8 is written as it is\<close>

lemma first_size: "first b = Some (sz, lo, hi) \<Longrightarrow> 2 \<le> sz \<and> sz \<le> 4"
  by (auto simp: first_def split: if_splits)

lemma DecodeRuneInString_take:
  "DecodeRuneInString (take (min (length s) 4) s) = DecodeRuneInString s"
proof (cases s)
  case Nil
  then show ?thesis by simp
next
  case (Cons c cs)
  show ?thesis
  proof (cases "first (of_char c)")
    case None
    then show ?thesis
      using Cons by (simp add: DecodeRuneInString_def)
  next
    case (Some t)
    obtain sz lo hi where t: "t = (sz, lo, hi)"
      by (cases t)
    have sz: "2 \<le> sz \<and> sz \<le> 4"
      using Some t first_size by blast
    show ?thesis
      using Cons Some t sz
      by (auto simp: DecodeRuneInString_def Let_def min_def nth_Cons' split: if_splits)
  qed
qed

lemma DecodeRuneInString_width:
  assumes "s \<noteq> []" and "DecodeRuneInString s = (r, width)"
  shows "1 \<le> width \<and> width \<le> length s"
proof (cases "first (of_char (hd s))")
  case None
  then show ?thesis
    using assms by (cases s) (auto simp: DecodeRuneInString_def Let_def split: if_splits)
next
  case (Some t)
  obtain sz lo hi where t: "t = (sz, lo, hi)"
    by (cases t)
  have "2 \<le> sz \<and> sz \<le> 4"
    using Some t first_size by blast
  then show ?thesis
    using assms Some t
    by (cases s) (auto simp: DecodeRuneInString_def Let_def Suc_le_eq split: if_splits)
qed

lemma DecodeRuneInString_ascii:
  "(of_char c :: nat) < 0x80 \<Longrightarrow> DecodeRuneInString (c # cs) = (of_char c, 1)"
  by (auto simp: DecodeRuneInString_def first_def)

lemma coerceUTF8_valid: "ValidString s \<Longrightarrow> coerceUTF8 s = s"
proof (induction s rule: ValidString.induct)
  case (1 s)
  show ?case
  proof (cases "s = []")
    case True
    then show ?thesis
      by (simp add: coerceUTF8.simps)
  next
    case False
    obtain r width where d: "DecodeRuneInString s = (r, width)"
      by (cases "DecodeRuneInString s")
    from "1.prems" False d have ok: "\<not> (r = RuneError \<and> width = 1)" and rest: "ValidString (drop width s)"
      by (auto simp: ValidString.simps [of s] split: if_splits)
    have ih: "coerceUTF8 (drop width s) = drop width s"
      using "1.IH" [OF False d [symmetric] refl ok rest] .
    show ?thesis
    proof (cases "(of_char (hd s) :: nat) < 0x80")
      case True
      with False d have "width = 1"
        by (cases s) (simp_all add: DecodeRuneInString_ascii)
      with ih False True show ?thesis
        by (subst coerceUTF8.simps) (cases s, simp_all add: drop_Suc)
    next
      case high: False
      show ?thesis
        using False high d ok ih
        by (subst coerceUTF8.simps) (auto simp: DecodeRuneInString_take)
    qed
  qed
qed

subsection \<open>Bytes that are not valid UTF-8 are replaced\<close>

lemma coerceUTF8_Nil: "coerceUTF8 [] = []"
  by (simp add: coerceUTF8.simps)

lemma ValidString_Nil: "ValidString []"
  by (simp add: ValidString.simps)

lemma DecodeRuneInString_short:
  "first (of_char c) = Some (sz, lo, hi) \<Longrightarrow> length (c # cs) < sz \<Longrightarrow>
   DecodeRuneInString (c # cs) = (RuneError, 1)"
  by (simp add: DecodeRuneInString_def)

lemma DecodeRuneInString_2:
  "first (of_char c) = Some (2, lo, hi) \<Longrightarrow>
   DecodeRuneInString (c # d # ds) =
     (if of_char d < lo \<or> hi < of_char d then (RuneError, 1)
      else ((of_char c mod 32) * 64 + of_char d mod 64, 2))"
  by (simp add: DecodeRuneInString_def)

lemma DecodeRuneInString_3:
  "first (of_char c) = Some (3, lo, hi) \<Longrightarrow>
   DecodeRuneInString (c # d # e # es) =
     (if of_char d < lo \<or> hi < of_char d then (RuneError, 1)
      else if of_char e < (0x80::nat) \<or> (0xBF::nat) < of_char e then (RuneError, 1)
      else ((of_char c mod 16) * 4096 + (of_char d mod 64) * 64 + of_char e mod 64, 3))"
  by (simp add: DecodeRuneInString_def)

lemma DecodeRuneInString_4:
  "first (of_char c) = Some (4, lo, hi) \<Longrightarrow>
   DecodeRuneInString (c # d # e # f # fs) =
     (if of_char d < lo \<or> hi < of_char d then (RuneError, 1)
      else if of_char e < (0x80::nat) \<or> (0xBF::nat) < of_char e then (RuneError, 1)
      else if of_char f < (0x80::nat) \<or> (0xBF::nat) < of_char f then (RuneError, 1)
      else ((of_char c mod 8) * 262144 + (of_char d mod 64) * 4096 + (of_char e mod 64) * 64
              + of_char f mod 64, 4))"
  by (simp add: DecodeRuneInString_def)

lemma DecodeRuneInString_tail:
  assumes "s \<noteq> []" and "DecodeRuneInString s = (r, width)" and "\<not> (r = RuneError \<and> width = 1)"
  shows "DecodeRuneInString (take width s @ t) = (r, width)"
proof -
  obtain c cs where s: "s = c # cs"
    using assms(1) by (cases s) auto
  show ?thesis
  proof (cases "first (of_char c)")
    case None
    then have "(of_char c :: nat) < 0x80" and "width = 1"
      using assms(2,3) s by (auto simp: DecodeRuneInString_def Let_def split: if_splits)
    then show ?thesis
      using assms(2) s by (simp add: DecodeRuneInString_ascii)
  next
    case (Some u)
    obtain sz lo hi where u: "first (of_char c) = Some (sz, lo, hi)"
      using Some by (cases u) auto
    have long: "sz \<le> length s"
      using DecodeRuneInString_short [OF u, of cs] assms s by (cases "length s < sz") auto
    consider "sz = 2" | "sz = 3" | "sz = 4"
      using first_size [OF u] by linarith
    then show ?thesis
    proof cases
      case 1
      then obtain d ds where "cs = d # ds"
        using long s by (cases cs) auto
      then show ?thesis
        using assms(2,3) s u 1 by (auto simp: DecodeRuneInString_2 split: if_splits)
    next
      case 2
      then obtain d e es where "cs = d # e # es"
        using long s by (cases cs; cases "tl cs") auto
      then show ?thesis
        using assms(2,3) s u 2 by (auto simp: DecodeRuneInString_3 split: if_splits)
    next
      case 3
      then obtain d e f fs where "cs = d # e # f # fs"
        using long s by (cases cs; cases "tl cs"; cases "tl (tl cs)") auto
      then show ?thesis
        using assms(2,3) s u 3 by (auto simp: DecodeRuneInString_4 split: if_splits)
    qed
  qed
qed

lemma DecodeRuneInString_append:
  assumes "s \<noteq> []" and "DecodeRuneInString s = (r, width)" and "\<not> (r = RuneError \<and> width = 1)"
  shows "DecodeRuneInString (s @ t) = (r, width)"
  using DecodeRuneInString_tail [OF assms, of "drop width s @ t"]
  by (simp flip: append_assoc)

lemma coerceUTF8_ascii_Cons:
  "(of_char c :: nat) < 0x80 \<Longrightarrow> coerceUTF8 (c # cs) = c # coerceUTF8 cs"
  by (subst coerceUTF8.simps) simp

lemma coerceUTF8_rune:
  assumes "s \<noteq> []" and "\<not> (of_char (hd s) :: nat) < 0x80"
    and "DecodeRuneInString s = (r, width)"
  shows "coerceUTF8 s =
    (if r = RuneError \<and> width = 1 then [CHR 0xEF, CHR 0xBF, CHR 0xBD] else take width s)
    @ coerceUTF8 (drop width s)"
  using assms by (subst coerceUTF8.simps) (simp add: DecodeRuneInString_take)

lemma coerceUTF8_valid_rune:
  assumes "s \<noteq> []" and "\<not> (of_char (hd s) :: nat) < 0x80"
    and "DecodeRuneInString s = (r, width)" and "\<not> (r = RuneError \<and> width = 1)"
  shows "coerceUTF8 s = take width s @ coerceUTF8 (drop width s)"
  unfolding coerceUTF8_rune [OF assms(1-3)] if_not_P [OF assms(4)] ..

lemma coerceUTF8_invalid_rune:
  assumes "s \<noteq> []" and "DecodeRuneInString s = (RuneError, 1)"
  shows "coerceUTF8 s = [CHR 0xEF, CHR 0xBF, CHR 0xBD] @ coerceUTF8 (drop 1 s)"
proof -
  have "\<not> (of_char (hd s) :: nat) < 0x80"
    using assms by (cases s) (auto simp: DecodeRuneInString_ascii RuneError_def)
  from coerceUTF8_rune [OF assms(1) this assms(2)] show ?thesis
    by simp
qed

lemma coerceUTF8_invalid:
  assumes "DecodeRuneInString (b # c) = (RuneError, 1)"
  shows "coerceUTF8 (b # c) = [CHR 0xEF, CHR 0xBF, CHR 0xBD] @ coerceUTF8 c"
  using coerceUTF8_invalid_rune [of "b # c"] assms by simp

lemma coerceUTF8_append:
  "ValidString a \<Longrightarrow> coerceUTF8 (a @ s) = a @ coerceUTF8 s"
proof (induction a rule: ValidString.induct)
  case (1 a)
  show ?case
  proof (cases "a = []")
    case True
    then show ?thesis
      by simp
  next
    case False
    obtain r width where d: "DecodeRuneInString a = (r, width)"
      by (cases "DecodeRuneInString a")
    from "1.prems" False d have ok: "\<not> (r = RuneError \<and> width = 1)" and rest: "ValidString (drop width a)"
      by (auto simp: ValidString.simps [of a] split: if_splits)
    have ih: "coerceUTF8 (drop width a @ s) = drop width a @ coerceUTF8 s"
      using "1.IH" [OF False d [symmetric] refl ok rest] .
    have w: "1 \<le> width \<and> width \<le> length a"
      using DecodeRuneInString_width [OF False d] .
    obtain c cs where a: "a = c # cs"
      using False by (cases a) auto
    show ?thesis
    proof (cases "(of_char c :: nat) < 0x80")
      case True
      with a d have "width = 1"
        by (simp add: DecodeRuneInString_ascii)
      with ih a True show ?thesis
        by (simp add: coerceUTF8_ascii_Cons)
    next
      case high: False
      have "DecodeRuneInString (a @ s) = (r, width)"
        using DecodeRuneInString_append [OF False d ok] .
      moreover have "a @ s \<noteq> []" and "\<not> (of_char (hd (a @ s)) :: nat) < 0x80"
        using high a by simp_all
      ultimately have "coerceUTF8 (a @ s) = take width (a @ s) @ coerceUTF8 (drop width (a @ s))"
        using coerceUTF8_valid_rune [of "a @ s" r width] ok by blast
      also have "\<dots> = take width a @ drop width a @ coerceUTF8 s"
        using w ih by simp
      also have "\<dots> = a @ coerceUTF8 s"
        by (simp flip: append_assoc)
      finally show ?thesis .
    qed
  qed
qed

lemma ValidString_rune:
  assumes "s \<noteq> []" and "DecodeRuneInString s = (r, width)" and "\<not> (r = RuneError \<and> width = 1)"
    and "ValidString t"
  shows "ValidString (take width s @ t)"
proof -
  have w: "1 \<le> width \<and> width \<le> length s"
    using DecodeRuneInString_width [OF assms(1,2)] .
  have "DecodeRuneInString (take width s @ t) = (r, width)"
    using DecodeRuneInString_tail [OF assms(1-3)] .
  moreover have "take width s @ t \<noteq> []"
    using w assms(1) by (cases s) auto
  ultimately show ?thesis
    using assms(3,4) w by (subst ValidString.simps) simp
qed

lemma ValidString_replacement: "ValidString t \<Longrightarrow> ValidString ([CHR 0xEF, CHR 0xBF, CHR 0xBD] @ t)"
  by (subst ValidString.simps) (simp add: DecodeRuneInString_def first_def RuneError_def)

lemma ValidString_ascii_Cons:
  "(of_char c :: nat) < 0x80 \<Longrightarrow> ValidString t \<Longrightarrow> ValidString (c # t)"
  by (subst ValidString.simps) (simp add: DecodeRuneInString_ascii RuneError_def)

lemma ValidString_coerceUTF8: "ValidString (coerceUTF8 s)"
proof (induction s rule: coerceUTF8.induct)
  case (1 s)
  show ?case
  proof (cases "s = []")
    case True
    then show ?thesis
      by (simp add: coerceUTF8_Nil ValidString_Nil)
  next
    case False
    then obtain c cs where s: "s = c # cs"
      by (cases s) auto
    show ?thesis
    proof (cases "(of_char c :: nat) < 0x80")
      case True
      then show ?thesis
        using "1.IH"(1) [OF False] s by (simp add: coerceUTF8_ascii_Cons ValidString_ascii_Cons)
    next
      case high: False
      obtain r width where d: "DecodeRuneInString s = (r, width)"
        by (cases "DecodeRuneInString s")
      have d': "(r, width) = DecodeRuneInString (take (min (length s) 4) s)"
        using d by (simp add: DecodeRuneInString_take)
      have h: "\<not> (of_char (hd s) :: nat) < 0x80"
        using high s by simp
      have ih: "ValidString (coerceUTF8 (drop width s))"
      proof (cases "r = RuneError \<and> width = 1")
        case True
        then show ?thesis
          using "1.IH"(2) [OF False h d' refl] by simp
      next
        case False
        then show ?thesis
          using "1.IH"(3) [OF \<open>s \<noteq> []\<close> h d' refl] by simp
      qed
      show ?thesis
      proof (cases "r = RuneError \<and> width = 1")
        case True
        then have "coerceUTF8 s = [CHR 0xEF, CHR 0xBF, CHR 0xBD] @ coerceUTF8 (drop width s)"
          using coerceUTF8_invalid_rune [OF False] d by simp
        then show ?thesis
          using ValidString_replacement [OF ih] by simp
      next
        case ok: False
        show ?thesis
          unfolding coerceUTF8_valid_rune [OF False h d ok]
          using ValidString_rune [OF False d ok ih] .
      qed
    qed
  qed
qed

lemma coerceUTF8_idem: "coerceUTF8 (coerceUTF8 s) = coerceUTF8 s"
  by (simp add: coerceUTF8_valid ValidString_coerceUTF8)

lemma ValidString_ascii: "list_all (\<lambda>c. (of_char c :: nat) < 0x80) s \<Longrightarrow> ValidString s"
  by (induction s) (simp_all add: ValidString_Nil ValidString_ascii_Cons)

lemma coerceUTF8_ascii: "list_all (\<lambda>c. (of_char c :: nat) < 0x80) s \<Longrightarrow> coerceUTF8 s = s"
  by (simp add: ValidString_ascii coerceUTF8_valid)

lemma coerceUTF8_invalid_byte: "coerceUTF8 [CHR 0xFF] = [CHR 0xEF, CHR 0xBF, CHR 0xBD]"
  by (subst coerceUTF8.simps)
    (simp add: DecodeRuneInString_def first_def RuneError_def coerceUTF8_Nil)

lemma coerceUTF8_replacement: "coerceUTF8 [CHR 0xEF, CHR 0xBF, CHR 0xBD] = [CHR 0xEF, CHR 0xBF, CHR 0xBD]"
  by (subst coerceUTF8.simps)
    (simp add: DecodeRuneInString_def first_def RuneError_def coerceUTF8_Nil)

subsection \<open>Rounding to float64\<close>

lemma excessBits_small: "a < 2 ^ 53 \<Longrightarrow> excessBits a = 0"
  by (subst excessBits.simps) simp

lemma excessBits_large: "\<not> a < 2 ^ 53 \<Longrightarrow> excessBits a = Suc (excessBits (a div 2))"
  by (subst excessBits.simps) simp

lemma float64_exact:
  assumes "\<bar>n\<bar> \<le> 2 ^ 53"
  shows "float64 n = Some n"
proof (cases "\<bar>n\<bar> < 2 ^ 53")
  case True
  then have a: "nat \<bar>n\<bar> < 2 ^ 53"
    by (simp add: nat_less_iff)
  also have "(2::nat) ^ 53 < 2 ^ 1024"
    by simp
  finally have "\<not> (2::nat) ^ 1024 \<le> nat \<bar>n\<bar>"
    by simp
  then show ?thesis
    using a by (simp add: float64_def excessBits_small mult_sgn_abs)
next
  case False
  with assms have "n = 2 ^ 53 \<or> n = - (2 ^ 53)"
    by linarith
  then show ?thesis
    by (auto simp: float64_def excessBits_small excessBits_large Let_def)
qed

lemma float64_rounds: "float64 (2 ^ 53 + 1) = Some (2 ^ 53)"
  by (simp add: float64_def excessBits_small excessBits_large Let_def)

lemma excessBits_lower: "\<not> a < 2 ^ 53 \<Longrightarrow> 2 ^ 52 * 2 ^ excessBits a \<le> a"
proof (induction a rule: excessBits.induct)
  case (1 a)
  show ?case
  proof (cases "a div 2 < 2 ^ 53")
    case True
    then show ?thesis
      using "1.prems" by (simp add: excessBits_large excessBits_small)
  next
    case False
    have "2 ^ 52 * 2 ^ excessBits (a div 2) \<le> a div 2"
      using "1.IH" [OF "1.prems" False] .
    then have "2 * (2 ^ 52 * 2 ^ excessBits (a div 2)) \<le> 2 * (a div 2)"
      by (rule mult_le_mono2)
    also have "\<dots> \<le> a"
      by simp
    finally show ?thesis
      using "1.prems" by (simp add: excessBits_large)
  qed
qed

lemma float64_error:
  assumes "float64 n = Some f"
  shows "2 ^ 53 * \<bar>f - n\<bar> \<le> \<bar>n\<bar>"
proof -
  define a where "a = nat \<bar>n\<bar>"
  define e where "e = excessBits a"
  define p :: nat where "p = 2 ^ e"
  define q where "q = a div p"
  define r where "r = a mod p"
  define q' where "q' = (if p < 2 * r \<or> (2 * r = p \<and> odd q) then q + 1 else q)"
  have f: "f = sgn n * int (q' * p)"
    using assms unfolding float64_def Let_def a_def [symmetric] e_def [symmetric]
      p_def [symmetric] q_def [symmetric] r_def [symmetric] q'_def [symmetric]
    by (simp split: if_splits)
  have n: "n = sgn n * int a"
    by (simp add: a_def mult_sgn_abs)
  have a: "a = q * p + r"
    unfolding q_def r_def by (rule div_mult_mod_eq [symmetric])
  have rlt: "r < p"
    by (simp add: r_def p_def)
  have "\<bar>f - n\<bar> = \<bar>sgn n * (int (q' * p) - int a)\<bar>"
    by (subst f, subst (2) n) (simp add: algebra_simps)
  also have "\<dots> \<le> \<bar>int (q' * p) - int a\<bar>"
    by (simp add: abs_mult abs_sgn_eq)
  finally have d: "\<bar>f - n\<bar> \<le> \<bar>int (q' * p) - int a\<bar>" .
  have half: "2 * \<bar>int (q' * p) - int a\<bar> \<le> int p"
  proof (cases "p < 2 * r \<or> (2 * r = p \<and> odd q)")
    case True
    then have "q' = q + 1" and up: "p \<le> 2 * r"
      by (auto simp: q'_def)
    then have "int (q' * p) - int a = int p - int r"
      unfolding a by (simp add: algebra_simps)
    moreover have "int p \<le> int (2 * r)"
      using up by (rule iffD2 [OF of_nat_le_iff])
    then have "2 * \<bar>int p - int r\<bar> \<le> int p"
      using rlt by simp
    ultimately show ?thesis
      by (simp only:)
  next
    case False
    then have "q' = q" and down: "2 * r \<le> p"
      by (auto simp: q'_def)
    then have "int (q' * p) - int a = - int r"
      unfolding a by simp
    moreover have "int (2 * r) \<le> int p"
      using down by (rule iffD2 [OF of_nat_le_iff])
    then have "2 * \<bar>- int r\<bar> \<le> int p"
      by simp
    ultimately show ?thesis
      by (simp only:)
  qed
  show ?thesis
  proof (cases "a < 2 ^ 53")
    case True
    then have "p = 1"
      by (simp add: p_def e_def excessBits_small)
    then have "r = 0" and "q' = q"
      by (simp_all add: r_def q'_def)
    then have "int (q' * p) - int a = 0"
      using a by simp
    with d show ?thesis
      by simp
  next
    case False
    have "2 ^ 52 * p \<le> a"
      unfolding p_def e_def using excessBits_lower [OF False] .
    then have "int (2 ^ 52 * p) \<le> int a"
      by (rule iffD2 [OF of_nat_le_iff])
    then have "2 ^ 52 * int p \<le> int a"
      by simp
    moreover have "2 ^ 53 * \<bar>f - n\<bar> \<le> 2 ^ 52 * (2 * \<bar>int (q' * p) - int a\<bar>)"
      using d by simp
    moreover have "2 ^ 52 * (2 * \<bar>int (q' * p) - int a\<bar>) \<le> 2 ^ 52 * int p"
      using half by (intro mult_left_mono) simp_all
    moreover have "int a = \<bar>n\<bar>"
      by (simp add: a_def)
    ultimately show ?thesis
      by linarith
  qed
qed

section \<open>Properties of the operation handler\<close>

subsection \<open>Quoting of plain names\<close>

lemma quoteBody_Nil: "quoteBody tbl [] = []"
  by (simp add: quoteBody.simps)

lemma of_char_eq_iff_nat: "(of_char c :: nat) = of_char d \<longleftrightarrow> c = d"
  by (metis char_of_char)

lemma appendEscapedRune_plain:
  assumes "(0x20::nat) \<le> of_char c" "of_char c \<le> (0x7E::nat)" "c \<noteq> CHR 0x22" "c \<noteq> CHR 0x5C"
  shows "appendEscapedRune tbl (of_char c) = [c]"
proof -
  have a: "of_char c \<noteq> (0x22::nat)"
    using assms(3) of_char_eq_iff_nat[of c "CHR 0x22"] by simp
  have b: "of_char c \<noteq> (0x5C::nat)"
    using assms(4) of_char_eq_iff_nat[of c "CHR 0x5C"] by simp
  show ?thesis
    using assms(1,2) a b by (simp add: appendEscapedRune_def IsPrint_def AppendRune_def)
qed

lemma quoteBody_plain_Cons:
  assumes "(0x20::nat) \<le> of_char c" "of_char c \<le> (0x7E::nat)" "c \<noteq> CHR 0x22" "c \<noteq> CHR 0x5C"
  shows "quoteBody tbl (c # cs) = c # quoteBody tbl cs"
  using assms appendEscapedRune_plain[OF assms, of tbl]
  by (subst quoteBody.simps) (simp add: RuneError_def)

lemma quoteBody_plain: "plainASCII s \<Longrightarrow> quoteBody tbl s = s"
  by (induction s) (simp_all add: plainASCII_def quoteBody_Nil quoteBody_plain_Cons)

lemma Quote_plain: "plainASCII s \<Longrightarrow> Quote tbl s = [CHR 0x22] @ s @ [CHR 0x22]"
  by (simp add: Quote_def quoteBody_plain)

lemma futureOps_plain: "op \<in> set futureOps \<Longrightarrow> plainASCII op"
  by (auto simp: futureOps_def plainASCII_def)

lemma handleEval_empty:
  "Code req = [] \<Longrightarrow> handleEval h req resp =
     Inr (resp\<lparr>Status := [''error''], ProtocolError := ''eval operation requires 'code' field''\<rparr>)"
  by (simp add: handleEval_def)

lemma handleEval_done:
  "Code req \<noteq> [] \<Longrightarrow> evaluator h = Some ev \<Longrightarrow> ev (Code req) = (result, output, None) \<Longrightarrow>
   handleEval h req resp = Inr (resp\<lparr>Value := result, Output := output, Status := [''done'']\<rparr>)"
  by (simp add: handleEval_def)

lemma handleEval_fatal:
  "Code req \<noteq> [] \<Longrightarrow> evaluator h = Some ev \<Longrightarrow> ev (Code req) = (result, output, Some err) \<Longrightarrow>
   handleEval h req resp =
     Inr (resp\<lparr>Status := [''error''], ProtocolError := ''evaluator error: '' @ err\<rparr>)"
  by (simp add: handleEval_def)

lemma Handle_eval_eq: "Op req = ''eval'' \<Longrightarrow> Handle env h req = handleEval h req (zeroMessage\<lparr>ID := ID req\<rparr>)"
  by (simp add: Handle_def)

text \<open>
  C1. For a request with op \<^verbatim>\<open>eval\<close>: with non-empty code and an evaluator that returns
  without a fatal error, the response has status \<^verbatim>\<open>["done"]\<close>, the evaluator's result and
  output as value and output, and no protocol error; when the evaluator returns a fatal
  error, the response has status \<^verbatim>\<open>["error"]\<close> and the protocol error
  \<^verbatim>\<open>evaluator error: \<close> followed by the error text; with empty code, the response has
  status \<^verbatim>\<open>["error"]\<close> and the protocol error \<^verbatim>\<open>eval operation requires 'code' field\<close>.
\<close>

theorem Handle_eval:
  assumes "Op req = ''eval''"
  shows "(Code req \<noteq> [] \<and> evaluator h = Some ev \<and> ev (Code req) = (result, output, None) \<longrightarrow>
            (\<exists>resp. Handle env h req = Inr resp \<and> Status resp = [''done''] \<and> Value resp = result
               \<and> Output resp = output \<and> ProtocolError resp = [])) \<and>
         (Code req \<noteq> [] \<and> evaluator h = Some ev \<and> ev (Code req) = (result', output', Some err) \<longrightarrow>
            (\<exists>resp. Handle env h req = Inr resp \<and> Status resp = [''error'']
               \<and> ProtocolError resp = ''evaluator error: '' @ err)) \<and>
         (Code req = [] \<longrightarrow>
            (\<exists>resp. Handle env h req = Inr resp \<and> Status resp = [''error'']
               \<and> ProtocolError resp = ''eval operation requires 'code' field''))"
proof (intro conjI impI)
  assume "Code req \<noteq> [] \<and> evaluator h = Some ev \<and> ev (Code req) = (result, output, None)"
  then show "\<exists>resp. Handle env h req = Inr resp \<and> Status resp = [''done''] \<and> Value resp = result
               \<and> Output resp = output \<and> ProtocolError resp = []"
    using assms by (simp add: Handle_eval_eq handleEval_done zeroMessage_def)
next
  assume "Code req \<noteq> [] \<and> evaluator h = Some ev \<and> ev (Code req) = (result', output', Some err)"
  then show "\<exists>resp. Handle env h req = Inr resp \<and> Status resp = [''error'']
               \<and> ProtocolError resp = ''evaluator error: '' @ err"
    using assms by (simp add: Handle_eval_eq handleEval_fatal)
next
  assume "Code req = []"
  then show "\<exists>resp. Handle env h req = Inr resp \<and> Status resp = [''error'']
               \<and> ProtocolError resp = ''eval operation requires 'code' field''"
    using assms by (simp add: Handle_eval_eq handleEval_empty)
qed

theorem Handle_eval_witness:
  "Op (evalRequest ''1'' ''(+ 1 2)'') = ''eval'' \<and>
   Code (evalRequest ''1'' ''(+ 1 2)'') \<noteq> [] \<and>
   mockEvaluator ''(+ 1 2)'' = (VNumber 3, [], None) \<and>
   (\<exists>resp. Handle testHost (NewHandler (Some mockEvaluator)) (evalRequest ''1'' ''(+ 1 2)'') = Inr resp
      \<and> Status resp = [''done''] \<and> Value resp = VNumber 3 \<and> Output resp = [] \<and> ProtocolError resp = []) \<and>
   mockEvaluator ''(catastrophic)'' = (VNil, [], Some ''catastrophic failure'') \<and>
   (\<exists>resp. Handle testHost (NewHandler (Some mockEvaluator)) (evalRequest ''2'' ''(catastrophic)'') = Inr resp
      \<and> Status resp = [''error''] \<and> ProtocolError resp = ''evaluator error: catastrophic failure'') \<and>
   (\<exists>resp. Handle testHost (NewHandler (Some mockEvaluator)) (evalRequest ''3'' []) = Inr resp
      \<and> Status resp = [''error''] \<and> ProtocolError resp = ''eval operation requires 'code' field'')"
proof -
  have op: "Op (evalRequest i c) = ''eval''" for i c
    by (simp add: evalRequest_def)
  have code: "Code (evalRequest i c) = c" for i c
    by (simp add: evalRequest_def)
  have ev: "evaluator (NewHandler (Some mockEvaluator)) = Some mockEvaluator"
    by (simp add: NewHandler_def)
  have m1: "mockEvaluator ''(+ 1 2)'' = (VNumber 3, [], None)"
    by (simp add: mockEvaluator_def)
  have m2: "mockEvaluator ''(catastrophic)'' = (VNil, [], Some ''catastrophic failure'')"
    by (simp add: mockEvaluator_def)
  note a = Handle_eval [OF op, of "''1''" "''(+ 1 2)''" "NewHandler (Some mockEvaluator)" mockEvaluator
       "VNumber 3" "[]" testHost]
  note b = Handle_eval [OF op, of "''2''" "''(catastrophic)''" "NewHandler (Some mockEvaluator)" mockEvaluator
       _ _ testHost VNil "[]" "''catastrophic failure''"]
  note c = Handle_eval [OF op, of "''3''" "[]" "NewHandler (Some mockEvaluator)" mockEvaluator _ _ testHost]
  show ?thesis
    using a b c by (simp add: code ev m1 m2 op)
qed

subsection \<open>The shape of the responses\<close>

lemma Handle_cases:
  "Handle env h req = Inr resp \<Longrightarrow>
     (Op req = ''eval'' \<and> handleEval h req (zeroMessage\<lparr>ID := ID req\<rparr>) = Inr resp) \<or>
     (Op req = ''load-file'' \<and> handleLoadFile env h req (zeroMessage\<lparr>ID := ID req\<rparr>) = Inr resp) \<or>
     resp = handleDescribe req (zeroMessage\<lparr>ID := ID req\<rparr>) \<or>
     resp = handleInterrupt req (zeroMessage\<lparr>ID := ID req\<rparr>) \<or>
     (\<exists>e. e \<noteq> [] \<and> resp = zeroMessage\<lparr>ID := ID req, Status := [''error''], ProtocolError := e\<rparr>)"
  by (auto simp: Handle_def Let_def Quote_def split: if_splits)

lemma handleEval_cases:
  "handleEval h req resp0 = Inr resp \<Longrightarrow>
     (\<exists>e. e \<noteq> [] \<and> resp = resp0\<lparr>Status := [''error''], ProtocolError := e\<rparr>) \<or>
     (\<exists>v out. resp = resp0\<lparr>Value := v, Output := out, Status := [''done'']\<rparr>)"
  by (auto simp: handleEval_def split: if_splits option.splits prod.splits)

lemma handleLoadFile_cases:
  "handleLoadFile env h req resp0 = Inr resp \<Longrightarrow>
     (\<exists>e. e \<noteq> [] \<and> resp = resp0\<lparr>Status := [''error''], ProtocolError := e\<rparr>) \<or>
     (\<exists>v out. resp = resp0\<lparr>Value := v, Output := out, Status := [''done'']\<rparr>)"
  by (auto simp: handleLoadFile_def Let_def split: if_splits option.splits prod.splits sum.splits)

lemma Handle_shape:
  assumes "Handle env h req = Inr resp"
  shows "(\<exists>e. e \<noteq> [] \<and> resp = zeroMessage\<lparr>ID := ID req, Status := [''error''], ProtocolError := e\<rparr>) \<or>
         (\<exists>v out. resp = zeroMessage\<lparr>ID := ID req, Value := v, Output := out, Status := [''done'']\<rparr>) \<or>
         (\<exists>d. resp = zeroMessage\<lparr>ID := ID req, Status := [''done''], Data := d\<rparr>)"
  using Handle_cases[OF assms]
  by (auto dest!: handleEval_cases handleLoadFile_cases simp: handleDescribe_def handleInterrupt_def)

lemma Handle_returns:
  "evaluator h \<noteq> None \<Longrightarrow> \<exists>resp. Handle env h req = Inr resp"
  by (auto simp: Handle_def Let_def handleEval_def handleLoadFile_def
      split: if_splits option.splits prod.splits sum.splits)

text \<open>
  C2. Whatever the op of the request (implemented, unimplemented or unknown), a response
  returned by \<^verbatim>\<open>Handle\<close> carries the id of the request; and \<^verbatim>\<open>Handle\<close> does return a
  response whenever the handler is bound to an evaluator.
\<close>

theorem Handle_echoes_ID:
  "(\<forall>resp. Handle env h req = Inr resp \<longrightarrow> ID resp = ID req) \<and>
   (evaluator h \<noteq> None \<longrightarrow> (\<exists>resp. Handle env h req = Inr resp \<and> ID resp = ID req))"
proof -
  have a: "ID resp = ID req" if "Handle env h req = Inr resp" for resp
    using Handle_shape[OF that] by auto
  moreover have "\<exists>resp. Handle env h req = Inr resp \<and> ID resp = ID req" if "evaluator h \<noteq> None"
    using Handle_returns[OF that, of env req] a by blast
  ultimately show ?thesis
    by blast
qed

theorem Handle_echoes_ID_witness:
  "evaluator (NewHandler (Some mockEvaluator)) \<noteq> None \<and>
   (\<exists>resp. Handle testHost (NewHandler (Some mockEvaluator)) (evalRequest ''41'' ''(+ 1 2)'') = Inr resp
      \<and> ID resp = ''41'') \<and>
   (\<exists>resp. Handle testHost (NewHandler (Some mockEvaluator)) (zeroMessage\<lparr>Op := ''clone'', ID := ''42''\<rparr>) = Inr resp
      \<and> ID resp = ''42'') \<and>
   (\<exists>resp. Handle testHost (NewHandler (Some mockEvaluator)) (zeroMessage\<lparr>Op := ''frobnicate'', ID := ''43''\<rparr>) = Inr resp
      \<and> ID resp = ''43'')"
proof -
  have ev: "evaluator (NewHandler (Some mockEvaluator)) \<noteq> None"
    by (simp add: NewHandler_def)
  have a: "\<exists>resp. Handle testHost (NewHandler (Some mockEvaluator)) req = Inr resp \<and> ID resp = ID req" for req
    using Handle_echoes_ID [of testHost "NewHandler (Some mockEvaluator)" req] ev by blast
  show ?thesis
    using ev a [of "evalRequest ''41'' ''(+ 1 2)''"] a [of "zeroMessage\<lparr>Op := ''clone'', ID := ''42''\<rparr>"]
      a [of "zeroMessage\<lparr>Op := ''frobnicate'', ID := ''43''\<rparr>"]
    by (simp add: evalRequest_def)
qed

lemma Handle_load_file_eq:
  "Op req = ''load-file'' \<Longrightarrow>
   Handle env h req = handleLoadFile env h req (zeroMessage\<lparr>ID := ID req\<rparr>)"
  by (simp add: Handle_def)

text \<open>
  C3. In every response of the handler, a protocol error that is set comes with the status
  \<^verbatim>\<open>["error"]\<close> and with value and output at their zero values. Whenever the evaluator
  is called (by \<^verbatim>\<open>eval\<close> on the code, by \<^verbatim>\<open>load-file\<close> on the contents of the file) and
  returns a value without a fatal error, an error-as-data value included, that value is
  the value of the response, the status is \<^verbatim>\<open>["done"]\<close> and no protocol error is set.
\<close>

theorem Handle_error_or_value:
  "(\<forall>resp. Handle env h req = Inr resp \<and> ProtocolError resp \<noteq> [] \<longrightarrow>
      Status resp = [''error''] \<and> Value resp = VNil \<and> Output resp = []) \<and>
   (Op req = ''eval'' \<and> Code req \<noteq> [] \<and> evaluator h = Some ev \<and> ev (Code req) = (v, out, None) \<longrightarrow>
      (\<exists>resp. Handle env h req = Inr resp \<and> Value resp = v \<and> Status resp = [''done'']
         \<and> ProtocolError resp = [])) \<and>
   (Op req = ''load-file'' \<and> loadFilePath req \<noteq> [] \<and> ReadFile env (loadFilePath req) = Inr code \<and>
    evaluator h = Some ev \<and> ev code = (v, out, None) \<longrightarrow>
      (\<exists>resp. Handle env h req = Inr resp \<and> Value resp = v \<and> Status resp = [''done'']
         \<and> ProtocolError resp = []))"
proof -
  have a: "Status resp = [''error''] \<and> Value resp = VNil \<and> Output resp = []"
    if "Handle env h req = Inr resp \<and> ProtocolError resp \<noteq> []" for resp
    using that Handle_shape [of env h req resp] by (auto simp: zeroMessage_def)
  have b: "\<exists>resp. Handle env h req = Inr resp \<and> Value resp = v \<and> Status resp = [''done'']
         \<and> ProtocolError resp = []"
    if "Op req = ''eval'' \<and> Code req \<noteq> [] \<and> evaluator h = Some ev \<and> ev (Code req) = (v, out, None)"
    using that by (simp add: Handle_def handleEval_def zeroMessage_def)
  have c: "\<exists>resp. Handle env h req = Inr resp \<and> Value resp = v \<and> Status resp = [''done'']
         \<and> ProtocolError resp = []"
    if "Op req = ''load-file'' \<and> loadFilePath req \<noteq> [] \<and> ReadFile env (loadFilePath req) = Inr code \<and>
        evaluator h = Some ev \<and> ev code = (v, out, None)"
    using that by (simp add: Handle_load_file_eq handleLoadFile_def zeroMessage_def)
  show ?thesis
    using a b c by blast
qed

theorem Handle_error_or_value_witness:
  \<open>Handle testHost (NewHandler (Some mockEvaluator)) (zeroMessage\<lparr>Op := ''frobnicate'', ID := ''6''\<rparr>) =
     Inr (zeroMessage\<lparr>ID := ''6'', Status := [''error''],
                      ProtocolError := ''unknown operation: "frobnicate"''\<rparr>) \<and>
   mockEvaluator ''(error "test error")'' = (testError, [], None) \<and>
   (\<exists>resp. Handle testHost (NewHandler (Some mockEvaluator)) (evalRequest ''3'' ''(error "test error")'') = Inr resp
      \<and> Value resp = testError \<and> Status resp = [''done''] \<and> ProtocolError resp = []) \<and>
   loadFilePath (loadFileRequest ''4'' ''/tmp/a.zy'') = ''/tmp/a.zy'' \<and>
   ReadFile testHost ''/tmp/a.zy'' = Inr ''(error "test error")'' \<and>
   (\<exists>resp. Handle testHost (NewHandler (Some mockEvaluator)) (loadFileRequest ''4'' ''/tmp/a.zy'') = Inr resp
      \<and> Value resp = testError \<and> Status resp = [''done''] \<and> ProtocolError resp = [])\<close>
proof -
  let ?h = "NewHandler (Some mockEvaluator)"
  let ?c = \<open>''(error "test error")''\<close>
  let ?r6 = "zeroMessage\<lparr>Op := ''frobnicate'', ID := ''6''\<rparr>"
  have ev: "evaluator ?h = Some mockEvaluator"
    by (simp add: NewHandler_def)
  have m: \<open>mockEvaluator ''(error "test error")'' = (testError, [], None)\<close>
    by (simp add: mockEvaluator_def testError_def)
  have q: \<open>Quote (PrintTable testHost) ''frobnicate'' = ''"frobnicate"''\<close>
    by (simp add: Quote_plain plainASCII_def)
  have r6: \<open>Handle testHost ?h ?r6 =
     Inr (zeroMessage\<lparr>ID := ''6'', Status := [''error''],
                      ProtocolError := ''unknown operation: "frobnicate"''\<rparr>)\<close>
    by (simp add: Handle_def futureOps_def q)
  have p: "loadFilePath (loadFileRequest ''4'' ''/tmp/a.zy'') = ''/tmp/a.zy''"
    by (simp add: loadFilePath_def loadFileRequest_def)
  have f: \<open>ReadFile testHost ''/tmp/a.zy'' = Inr ''(error "test error")''\<close>
    by (simp add: testHost_def)
  note t = Handle_error_or_value [of testHost ?h]
  have \<open>Status (zeroMessage\<lparr>ID := ''6'', Status := [''error''],
                      ProtocolError := ''unknown operation: "frobnicate"''\<rparr>) = [''error'']\<close>
    using t [of ?r6] r6 by simp
  moreover have "\<exists>resp. Handle testHost ?h (evalRequest ''3'' ?c) = Inr resp
      \<and> Value resp = testError \<and> Status resp = [''done''] \<and> ProtocolError resp = []"
    using t [of "evalRequest ''3'' ?c" mockEvaluator testError "[]"] ev m
    by (simp add: evalRequest_def)
  moreover have "\<exists>resp. Handle testHost ?h (loadFileRequest ''4'' ''/tmp/a.zy'') = Inr resp
      \<and> Value resp = testError \<and> Status resp = [''done''] \<and> ProtocolError resp = []"
    using t [of "loadFileRequest ''4'' ''/tmp/a.zy''" mockEvaluator testError "[]" ?c] ev m p f
    by (simp add: loadFileRequest_def)
  ultimately show ?thesis
    using r6 m p f by simp
qed

subsection \<open>Operations that are not served\<close>

lemma futureOps_set:
  "set futureOps = {''complete'', ''info'', ''eldoc'', ''lookup'', ''stdin'', ''ls-sessions'', ''clone'', ''close''}"
  by (simp add: futureOps_def)

lemma Handle_future:
  assumes "Op req \<in> set futureOps"
  shows "Handle env h req =
    Inr (zeroMessage\<lparr>ID := ID req, Status := [''error''],
           ProtocolError := ''operation '' @ [CHR 0x22] @ Op req @ [CHR 0x22] @ '' not yet implemented''\<rparr>)"
proof -
  have "Op req \<notin> {''eval'', ''load-file'', ''describe'', ''interrupt''}"
    using assms by (auto simp: futureOps_def)
  then show ?thesis
    using assms by (simp add: Handle_def Quote_plain [OF futureOps_plain])
qed

lemma Handle_unknown:
  assumes "Op req \<notin> {''eval'', ''load-file'', ''describe'', ''interrupt''}" and "Op req \<notin> set futureOps"
  shows "Handle env h req =
    Inr (zeroMessage\<lparr>ID := ID req, Status := [''error''],
           ProtocolError := ''unknown operation: '' @ Quote (PrintTable env) (Op req)\<rparr>)"
  using assms by (simp add: Handle_def)

text \<open>
  C8. For a request whose op is none of \<^verbatim>\<open>eval\<close>, \<^verbatim>\<open>load-file\<close>, \<^verbatim>\<open>describe\<close>,
  \<^verbatim>\<open>interrupt\<close>: for the eight operations kept for the future the response has status
  \<^verbatim>\<open>["error"]\<close> and the protocol error \<^verbatim>\<open>operation "X" not yet implemented\<close>; for any other
  op it has status \<^verbatim>\<open>["error"]\<close> and the protocol error \<^verbatim>\<open>unknown operation: \<close> followed
  by the op as \<^verbatim>\<open>%q\<close> quotes it, which for a plain name is the name between double quotes.
\<close>

theorem Handle_other_ops:
  assumes "Op req \<notin> {''eval'', ''load-file'', ''describe'', ''interrupt''}"
  shows \<open>(Op req \<in> {''complete'', ''info'', ''eldoc'', ''lookup'', ''stdin'', ''ls-sessions'', ''clone'', ''close''} \<longrightarrow>
            (\<exists>resp. Handle env h req = Inr resp \<and> Status resp = [''error''] \<and>
               ProtocolError resp = ''operation "'' @ Op req @ ''" not yet implemented'')) \<and>
         (Op req \<notin> {''complete'', ''info'', ''eldoc'', ''lookup'', ''stdin'', ''ls-sessions'', ''clone'', ''close''} \<longrightarrow>
            (\<exists>resp. Handle env h req = Inr resp \<and> Status resp = [''error''] \<and>
               ProtocolError resp = ''unknown operation: '' @ Quote (PrintTable env) (Op req))) \<and>
         (plainASCII (Op req) \<longrightarrow> Quote (PrintTable env) (Op req) = ''"'' @ Op req @ ''"'')\<close>
proof -
  have a: \<open>\<exists>resp. Handle env h req = Inr resp \<and> Status resp = [''error''] \<and>
               ProtocolError resp = ''operation "'' @ Op req @ ''" not yet implemented''\<close>
    if "Op req \<in> set futureOps"
    by (simp add: Handle_future [OF that])
  have b: "\<exists>resp. Handle env h req = Inr resp \<and> Status resp = [''error''] \<and>
               ProtocolError resp = ''unknown operation: '' @ Quote (PrintTable env) (Op req)"
    if "Op req \<notin> set futureOps"
    by (simp add: Handle_unknown [OF assms that])
  have c: \<open>Quote (PrintTable env) (Op req) = ''"'' @ Op req @ ''"''\<close> if "plainASCII (Op req)"
    by (simp add: Quote_plain [OF that])
  show ?thesis
    using a b c unfolding futureOps_set by blast
qed

theorem Handle_other_ops_witness:
  \<open>(\<exists>resp. Handle testHost (NewHandler None) (zeroMessage\<lparr>Op := ''ls-sessions'', ID := ''8''\<rparr>) = Inr resp \<and>
      Status resp = [''error''] \<and> ProtocolError resp = ''operation "ls-sessions" not yet implemented'') \<and>
   (\<exists>resp. Handle testHost (NewHandler None) (zeroMessage\<lparr>Op := ''frobnicate'', ID := ''9''\<rparr>) = Inr resp \<and>
      Status resp = [''error''] \<and> ProtocolError resp = ''unknown operation: "frobnicate"'')\<close>
proof -
  let ?a = "zeroMessage\<lparr>Op := ''ls-sessions'', ID := ''8''\<rparr>"
  let ?b = "zeroMessage\<lparr>Op := ''frobnicate'', ID := ''9''\<rparr>"
  have "Op ?a \<notin> {''eval'', ''load-file'', ''describe'', ''interrupt''}"
    by simp
  note a = Handle_other_ops [OF this, of testHost "NewHandler None"]
  have "Op ?b \<notin> {''eval'', ''load-file'', ''describe'', ''interrupt''}"
    by simp
  note b = Handle_other_ops [OF this, of testHost "NewHandler None"]
  have p: "plainASCII (Op ?b)"
    by (simp add: plainASCII_def)
  from b p have q: \<open>Quote (PrintTable testHost) (Op ?b) = ''"'' @ Op ?b @ ''"''\<close>
    by blast
  from a obtain ra where ra: \<open>Handle testHost (NewHandler None) ?a = Inr ra\<close>
      \<open>Status ra = [''error'']\<close>
      \<open>ProtocolError ra = ''operation "'' @ Op ?a @ ''" not yet implemented''\<close>
    by auto
  from b obtain rb where rb: \<open>Handle testHost (NewHandler None) ?b = Inr rb\<close>
      \<open>Status rb = [''error'']\<close>
      \<open>ProtocolError rb = ''unknown operation: '' @ Quote (PrintTable testHost) (Op ?b)\<close>
    by auto
  from ra have \<open>\<exists>resp. Handle testHost (NewHandler None) ?a = Inr resp \<and>
      Status resp = [''error''] \<and> ProtocolError resp = ''operation "ls-sessions" not yet implemented''\<close>
    by simp
  moreover from rb have \<open>\<exists>resp. Handle testHost (NewHandler None) ?b = Inr resp \<and>
      Status resp = [''error''] \<and> ProtocolError resp = ''unknown operation: "frobnicate"''\<close>
    unfolding q by simp
  ultimately show ?thesis
    by blast
qed

section \<open>Properties of the server factory\<close>

text \<open>
  C7, as the spec has it, lets the construction of an in-process server fail when no
  evaluator is provided. \<^verbatim>\<open>NewServer\<close> never looks at the evaluator: without one it still
  returns an in-process server.
\<close>

theorem NewServer_no_evaluator:
  "NewServer \<lparr>Transport = ''in-process'', Addr = [], Codec = [], Evaluator = None\<rparr> =
     Inr (InProcessServer (inprocess_NewServer None))"
  by (simp add: NewServer_def)

text \<open>
  C7, amended. With the transport tag \<^verbatim>\<open>in-process\<close> or empty, \<^verbatim>\<open>NewServer\<close> ignores the
  address and the codec and returns an in-process server for the evaluator as given, nil
  or not. With the tag \<^verbatim>\<open>unix\<close> or \<^verbatim>\<open>tcp\<close> it fails when the address is empty, and
  otherwise returns a server of that transport for the address and the codec name, the
  codec name \<^verbatim>\<open>json\<close> standing for an empty one. With any other tag it fails with
  \<^verbatim>\<open>unknown transport: X\<close>, \<open>X\<close> the tag.
\<close>

theorem NewServer_validation:
  "(Transport config = ''in-process'' \<or> Transport config = [] \<longrightarrow>
      NewServer config = Inr (InProcessServer (inprocess_NewServer (Evaluator config)))) \<and>
   (Transport config = ''unix'' \<and> Addr config = [] \<longrightarrow>
      NewServer config = Inl ''unix transport requires Addr'') \<and>
   (Transport config = ''tcp'' \<and> Addr config = [] \<longrightarrow>
      NewServer config = Inl ''tcp transport requires Addr'') \<and>
   (Transport config \<notin> {''in-process'', [], ''unix'', ''tcp''} \<longrightarrow>
      NewServer config = Inl (''unknown transport: '' @ Transport config)) \<and>
   (Transport config = ''unix'' \<and> Addr config \<noteq> [] \<longrightarrow>
      NewServer config =
        Inr (unix_NewServer (Addr config) (if Codec config = [] then ''json'' else Codec config)
               (Evaluator config))) \<and>
   (Transport config = ''tcp'' \<and> Addr config \<noteq> [] \<longrightarrow>
      NewServer config =
        Inr (tcp_NewServer (Addr config) (if Codec config = [] then ''json'' else Codec config)
               (Evaluator config)))"
  by (auto simp: NewServer_def Let_def)

theorem NewServer_validation_witness:
  "NewServer \<lparr>Transport = [], Addr = ''ignored'', Codec = [], Evaluator = None\<rparr> =
     Inr (InProcessServer (inprocess_NewServer None)) \<and>
   NewServer \<lparr>Transport = ''unix'', Addr = [], Codec = ''json'', Evaluator = Some mockEvaluator\<rparr> =
     Inl ''unix transport requires Addr'' \<and>
   NewServer \<lparr>Transport = ''tcp'', Addr = [], Codec = ''json'', Evaluator = Some mockEvaluator\<rparr> =
     Inl ''tcp transport requires Addr'' \<and>
   NewServer \<lparr>Transport = ''udp'', Addr = '':5555'', Codec = ''json'', Evaluator = Some mockEvaluator\<rparr> =
     Inl ''unknown transport: udp'' \<and>
   NewServer \<lparr>Transport = ''unix'', Addr = ''/tmp/zylisp.sock'', Codec = [], Evaluator = Some mockEvaluator\<rparr> =
     Inr (UnixServer ''/tmp/zylisp.sock'' ''json'' (NewHandler (Some mockEvaluator))) \<and>
   NewServer \<lparr>Transport = ''tcp'', Addr = '':5555'', Codec = [], Evaluator = Some mockEvaluator\<rparr> =
     Inr (TCPServer '':5555'' ''json'' (NewHandler (Some mockEvaluator)))"
  using
    NewServer_validation [of "\<lparr>Transport = [], Addr = ''ignored'', Codec = [], Evaluator = None\<rparr>"]
    NewServer_validation [of "\<lparr>Transport = ''unix'', Addr = [], Codec = ''json'', Evaluator = Some mockEvaluator\<rparr>"]
    NewServer_validation [of "\<lparr>Transport = ''tcp'', Addr = [], Codec = ''json'', Evaluator = Some mockEvaluator\<rparr>"]
    NewServer_validation [of "\<lparr>Transport = ''udp'', Addr = '':5555'', Codec = ''json'', Evaluator = Some mockEvaluator\<rparr>"]
    NewServer_validation [of "\<lparr>Transport = ''unix'', Addr = ''/tmp/zylisp.sock'', Codec = [], Evaluator = Some mockEvaluator\<rparr>"]
    NewServer_validation [of "\<lparr>Transport = ''tcp'', Addr = '':5555'', Codec = [], Evaluator = Some mockEvaluator\<rparr>"]
  by (simp add: unix_NewServer_def tcp_NewServer_def)

section \<open>Properties of the universal client\<close>

lemma detectTransport_unix_scheme:
  "length addr \<ge> 7 \<Longrightarrow> take 7 addr = ''unix://'' \<Longrightarrow> detectTransport addr = (''unix'', ''json'')"
  by (simp add: detectTransport_def)

lemma Connect_unix_scheme:
  assumes "length addr \<ge> 7" and "take 7 addr = ''unix://''"
  shows "Connect net c addr =
    (case unix_Connect net (unix_NewClient ''json'') addr ''json'' of
       (Some err, client) \<Rightarrow> (Some err, c\<lparr>transport := ''unix''\<rparr>)
     | (None, client) \<Rightarrow> (None, c\<lparr>transport := ''unix'', impl := Some (UnixClient client)\<rparr>))"
  by (simp add: Connect_def Let_def detectTransport_unix_scheme [OF assms])

text \<open>
  C6. With a server listening on the socket \<^verbatim>\<open>/tmp/zylisp.sock\<close>, \<^verbatim>\<open>Connect\<close> to
  \<^verbatim>\<open>unix:///tmp/zylisp.sock\<close> selects the Unix transport but hands the whole address, prefix
  included, to the Unix client, whose dial fails; the bare path connects, and on the TCP
  side the prefix \<^verbatim>\<open>tcp://\<close> is stripped before the dial.
\<close>

theorem Connect_unix_scheme_dials_whole_address:
  "Connect (listeningOn ''unix'' ''/tmp/zylisp.sock'') NewClient ''unix:///tmp/zylisp.sock'' =
     (Some ''failed to connect to unix server: dial unix unix:///tmp/zylisp.sock: connection refused'',
      \<lparr>transport = ''unix'', impl = None\<rparr>) \<and>
   Connect (listeningOn ''unix'' ''/tmp/zylisp.sock'') NewClient ''/tmp/zylisp.sock'' =
     (None, \<lparr>transport = ''unix'',
             impl = Some (UnixClient \<lparr>tcp_conn = Some (''unix'', ''/tmp/zylisp.sock''),
                                      tcp_codec = Some (JSONCodec (''unix'', ''/tmp/zylisp.sock'')),
                                      tcp_msgID = 0\<rparr>)\<rparr>) \<and>
   Connect (listeningOn ''tcp'' ''localhost:5555'') NewClient ''tcp://localhost:5555'' =
     (None, \<lparr>transport = ''tcp'',
             impl = Some (TCPClient \<lparr>tcp_conn = Some (''tcp'', ''localhost:5555''),
                                     tcp_codec = Some (JSONCodec (''tcp'', ''localhost:5555'')),
                                     tcp_msgID = 0\<rparr>)\<rparr>)"
  by (simp add: Connect_def Let_def detectTransport_def unix_Connect_def tcp_Connect_def
      socket_Connect_def listeningOn_def NewClient_def unix_NewClient_def tcp_NewClient_def
      NewCodec_def)

lemma Connect_transport:
  "Connect net c addr = (e, c') \<Longrightarrow> transport c' = fst (detectTransport addr)"
  by (auto simp: Connect_def Let_def split: prod.splits if_splits option.splits)

lemma Connect_failed_impl:
  "Connect net c addr = (Some err, c') \<Longrightarrow> impl c' = impl c"
  by (auto simp: Connect_def Let_def split: prod.splits if_splits option.splits)

lemma tcp_Eval_error_text:
  "tcp_Eval net cl code = Inr (Inl err, cl') \<Longrightarrow> err \<noteq> ''not connected''"
  by (auto simp: tcp_Eval_def Let_def split: option.splits codec.splits wire_outcome.splits)

lemma Eval_connected:
  assumes "transport c \<in> {''unix'', ''tcp''}"
  shows "Eval net c code \<noteq> Inr (Inl ''not connected'', c'')"
  using assms
  by (auto simp: Eval_def unix_Eval_def split: option.splits clientImpl.splits sum.splits
      dest: tcp_Eval_error_text)

text \<open>
  C10. When \<^verbatim>\<open>Connect\<close> detects the Unix or the TCP transport and returns an error, the
  transport tag is recorded all the same and \<^verbatim>\<open>impl\<close> is left as it was. A following
  \<^verbatim>\<open>Eval\<close> never answers \<^verbatim>\<open>not connected\<close>; on a client whose \<^verbatim>\<open>impl\<close> was nil, as
  \<^verbatim>\<open>NewClient\<close> makes it, the type assertion on the nil interface panics.
\<close>

theorem Eval_after_failed_Connect:
  assumes "fst (detectTransport addr) \<in> {''unix'', ''tcp''}"
    and "Connect net c addr = (Some err, c')"
  shows "transport c' = fst (detectTransport addr) \<and> impl c' = impl c \<and>
         (\<forall>c''. Eval net c' code \<noteq> Inr (Inl ''not connected'', c'')) \<and>
         (impl c = None \<longrightarrow> Eval net c' code = Inl InterfaceConversion)"
proof -
  have t: "transport c' = fst (detectTransport addr)"
    using assms(2) by (rule Connect_transport)
  have i: "impl c' = impl c"
    by (rule Connect_failed_impl [OF assms(2)])
  have "Eval net c' code = Inl InterfaceConversion" if "impl c = None"
    using assms(1) t i that by (auto simp: Eval_def)
  moreover have "Eval net c' code \<noteq> Inr (Inl ''not connected'', c'')" for c''
    using assms(1) t by (intro Eval_connected) simp
  ultimately show ?thesis
    using t i by blast
qed

theorem Eval_after_failed_Connect_witness:
  "fst (detectTransport ''localhost:5555'') = ''tcp'' \<and>
   Connect (listeningOn ''tcp'' ''localhost:6666'') NewClient ''localhost:5555'' =
     (Some ''failed to connect to tcp server: dial tcp localhost:5555: connection refused'',
      \<lparr>transport = ''tcp'', impl = None\<rparr>) \<and>
   impl NewClient = None \<and>
   Eval (listeningOn ''tcp'' ''localhost:6666'') \<lparr>transport = ''tcp'', impl = None\<rparr> ''(+ 1 2)'' =
     Inl InterfaceConversion"
proof -
  have d: "fst (detectTransport ''localhost:5555'') \<in> {''unix'', ''tcp''}"
    by (simp add: detectTransport_def)
  have c: "Connect (listeningOn ''tcp'' ''localhost:6666'') NewClient ''localhost:5555'' =
     (Some ''failed to connect to tcp server: dial tcp localhost:5555: connection refused'',
      \<lparr>transport = ''tcp'', impl = None\<rparr>)"
    by (simp add: Connect_def Let_def detectTransport_def tcp_Connect_def socket_Connect_def
        listeningOn_def NewClient_def tcp_NewClient_def)
  have n: "impl NewClient = None"
    by (simp add: NewClient_def)
  show ?thesis
    using Eval_after_failed_Connect [OF d c, of "''(+ 1 2)''"] c n
    by (simp add: detectTransport_def)
qed

section \<open>Properties of the textual codec\<close>

subsection \<open>Encoding, then decoding\<close>

lemma foldName_Nil: "foldName [] = []"
  by (simp add: foldName.simps)

lemma foldName_ascii:
  "(of_char c :: nat) < 0x80 \<Longrightarrow>
   foldName (c # cs) =
     (if (0x61::nat) \<le> of_char c \<and> of_char c \<le> (0x7A::nat)
      then ''ABCDEFGHIJKLMNOPQRSTUVWXYZ'' ! (of_char c - 0x61) else c) # foldName cs"
  by (subst foldName.simps) simp

lemma foldName_names:
  "foldName (coerceUTF8 ''op'') = ''OP''"
  "foldName (coerceUTF8 ''id'') = ''ID''"
  "foldName (coerceUTF8 ''session'') = ''SESSION''"
  "foldName (coerceUTF8 ''code'') = ''CODE''"
  "foldName (coerceUTF8 ''status'') = ''STATUS''"
  "foldName (coerceUTF8 ''value'') = ''VALUE''"
  "foldName (coerceUTF8 ''output'') = ''OUTPUT''"
  "foldName (coerceUTF8 ''protocol_error'') = ''PROTOCOL_ERROR''"
  "foldName (coerceUTF8 ''data'') = ''DATA''"
  by (simp_all add: coerceUTF8_ascii foldName_ascii foldName_Nil)

lemma unmarshalElements_strings:
  "unmarshalElements (map (\<lambda>s. JString (f s)) ss) old = map (\<lambda>s. coerceUTF8 (f s)) ss"
  by (induction ss arbitrary: old) (simp_all add: unmarshalString_def)

lemma unmarshalInterface_nil: "unmarshalInterface VNil j = (unmarshalValue j, numbersInRange j)"
  by (cases j) (simp_all add: unmarshalInterface_def split: option.split)

lemma storeField_simps:
  "storeField (m, e) (''op'', JString s) = (m\<lparr>Op := coerceUTF8 s\<rparr>, e)"
  "storeField (m, e) (''id'', JString s) = (m\<lparr>ID := coerceUTF8 s\<rparr>, e)"
  "storeField (m, e) (''session'', JString s) = (m\<lparr>Session := coerceUTF8 s\<rparr>, e)"
  "storeField (m, e) (''code'', JString s) = (m\<lparr>Code := coerceUTF8 s\<rparr>, e)"
  "storeField (m, e) (''output'', JString s) = (m\<lparr>Output := coerceUTF8 s\<rparr>, e)"
  "storeField (m, e) (''protocol_error'', JString s) = (m\<lparr>ProtocolError := coerceUTF8 s\<rparr>, e)"
  "storeField (m, e) (''value'', j) =
     (m\<lparr>Value := fst (unmarshalInterface (Value m) j)\<rparr>,
      if snd (unmarshalInterface (Value m) j) then e else saveError e)"
  "storeField (m, e) (''status'', JArray (map (\<lambda>s. JString (f s)) ss)) =
     (m\<lparr>Status := map (\<lambda>s. coerceUTF8 (f s)) ss\<rparr>, e)"
  "storeField (m, e) (''data'', JObject kjs) =
     (m\<lparr>Data := fst (unmarshalMap (Data m) (JObject kjs))\<rparr>,
      if numbersInRange (JObject kjs) then e else saveError e)"
  by (simp_all add: storeField_def foldName_names storeString_def unmarshalString_def
      unmarshalStrings_def unmarshalElements_strings unmarshalMap_def list_all_iff
      split: prod.split)

lemma saveError_simps:
  "saveError None = Some UnmarshalTypeError"
  "saveError (Some e) = Some e"
  by (simp_all add: saveError_def)

lemma numbersInRange_marshalMessage:
  "numbersInRange (marshalMessage M) \<longleftrightarrow>
   numbersInRange (marshalValue (Value M)) \<and> numbersInRange (marshalValue (VMap (Data M)))"
  by (auto simp: marshalMessage_def list_all_iff)

lemma unmarshal_marshal:
  "unmarshalMessage zeroMessage (marshalMessage M) =
     (readBack M, if numbersInRange (marshalMessage M) then None else Some UnmarshalTypeError)"
  unfolding numbersInRange_marshalMessage
  by (simp add: unmarshalMessage_def marshalMessage_def storeField_simps readBack_def
      zeroMessage_def coerceUTF8_Nil unmarshalMap_def unmarshalInterface_nil saveError_simps)

lemma JSONCodec_Decode_Encode:
  "JSONCodec_Decode (JSONCodec_Encode [] M) zeroMessage =
     (if numbersInRange (marshalMessage M) then None else Some UnmarshalTypeError, readBack M, [])"
  by (simp add: JSONCodec_Decode_def JSONCodec_Encode_def unmarshal_marshal)

text \<open>
  C4, as the spec has it, holds of every message. A Go string need not be valid UTF-8, and
  the codec writes U+FFFD for each byte that is not: the request to evaluate the
  one-byte code \<^verbatim>\<open>\xff\<close> is read back with the three-byte code \<^verbatim>\<open>\xef\xbf\xbd\<close>.
\<close>

theorem JSONCodec_round_trip_invalid_UTF8:
  "JSONCodec_Decode (JSONCodec_Encode [] (evalRequest ''1'' [CHR 0xFF])) zeroMessage =
     (None, evalRequest ''1'' [CHR 0xEF, CHR 0xBF, CHR 0xBD], []) \<and>
   Code (evalRequest ''1'' [CHR 0xFF]) = [CHR 0xFF]"
  by (subst JSONCodec_Decode_Encode)
    (simp add: readBack_def evalRequest_def zeroMessage_def coerceUTF8_ascii
      coerceUTF8_invalid_byte coerceUTF8_replacement coerceUTF8_Nil unmarshalMap_def
      numbersInRange_marshalMessage)

text \<open>
  C4, amended. Encoding any message \<open>M\<close> with the textual codec and decoding what was
  written into a fresh message yields a message \<open>M'\<close>, without an error when every number
  written is in the range of float64. Each of the fields \<^verbatim>\<open>op\<close>, \<^verbatim>\<open>id\<close>, \<^verbatim>\<open>code\<close>,
  \<^verbatim>\<open>output\<close>, \<^verbatim>\<open>protocol_error\<close> and each element of \<^verbatim>\<open>status\<close> is read back as the
  original with every byte that is not part of a valid UTF-8 sequence replaced by U+FFFD
  (the bytes \<^verbatim>\<open>\xef\xbf\xbd\<close>), so it is equal to the original when that is valid UTF-8.
  A value that is the integer \<open>n\<close> is read back as the float64 \<open>f\<close> nearest to \<open>n\<close>:
  \<open>f\<close> differs from \<open>n\<close> by at most \<open>\<bar>n\<bar> / 2\<^sup>5\<^sup>3\<close>, and is \<open>n\<close> when \<open>\<bar>n\<bar> \<le> 2\<^sup>5\<^sup>3\<close>.
\<close>

theorem JSONCodec_round_trip:
  "\<exists>e M'. JSONCodec_Decode (JSONCodec_Encode [] M) zeroMessage = (e, M', []) \<and>
     (numbersInRange (marshalMessage M) \<longrightarrow> e = None) \<and>
     Op M' = coerceUTF8 (Op M) \<and>
     ID M' = coerceUTF8 (ID M) \<and>
     Code M' = coerceUTF8 (Code M) \<and>
     Output M' = coerceUTF8 (Output M) \<and>
     ProtocolError M' = coerceUTF8 (ProtocolError M) \<and>
     Status M' = map coerceUTF8 (Status M) \<and>
     (ValidString (Op M) \<longrightarrow> Op M' = Op M) \<and>
     (ValidString (ID M) \<longrightarrow> ID M' = ID M) \<and>
     (ValidString (Code M) \<longrightarrow> Code M' = Code M) \<and>
     (ValidString (Output M) \<longrightarrow> Output M' = Output M) \<and>
     (ValidString (ProtocolError M) \<longrightarrow> ProtocolError M' = ProtocolError M) \<and>
     (list_all ValidString (Status M) \<longrightarrow> Status M' = Status M) \<and>
     (\<forall>s. ValidString s \<longrightarrow> coerceUTF8 s = s) \<and>
     (\<forall>a b c. ValidString a \<and> DecodeRuneInString (b # c) = (RuneError, 1) \<longrightarrow>
        coerceUTF8 (a @ b # c) = a @ [CHR 0xEF, CHR 0xBF, CHR 0xBD] @ coerceUTF8 c) \<and>
     (\<forall>n f. Value M = VNumber n \<and> float64 n = Some f \<longrightarrow>
        Value M' = VNumber f \<and> 2 ^ 53 * \<bar>f - n\<bar> \<le> \<bar>n\<bar>) \<and>
     (\<forall>n. Value M = VNumber n \<and> \<bar>n\<bar> \<le> 2 ^ 53 \<longrightarrow> Value M' = VNumber n)"
proof -
  have s: "map (\<lambda>s. coerceUTF8 (coerceUTF8 s)) ss = map coerceUTF8 ss" for ss
    by (simp add: coerceUTF8_idem)
  have v: "map coerceUTF8 ss = ss" if "list_all ValidString ss" for ss
    using that by (induction ss) (simp_all add: coerceUTF8_valid)
  have n: "Value (readBack M) = VNumber f" if "Value M = VNumber n" and "float64 n = Some f" for n f
    using that by (simp add: readBack_def)
  have x: "Value (readBack M) = VNumber n" if "Value M = VNumber n" and "\<bar>n\<bar> \<le> 2 ^ 53" for n
    using that float64_exact [of n] by (simp add: readBack_def)
  have f: "Op (readBack M) = coerceUTF8 (Op M)" "ID (readBack M) = coerceUTF8 (ID M)"
    "Code (readBack M) = coerceUTF8 (Code M)" "Output (readBack M) = coerceUTF8 (Output M)"
    "ProtocolError (readBack M) = coerceUTF8 (ProtocolError M)"
    "Status (readBack M) = map coerceUTF8 (Status M)"
    by (simp_all add: readBack_def coerceUTF8_idem)
  have c: "coerceUTF8 (a @ b # c) = a @ [CHR 0xEF, CHR 0xBF, CHR 0xBD] @ coerceUTF8 c"
    if "ValidString a" and "DecodeRuneInString (b # c) = (RuneError, 1)" for a b c
    using that by (simp add: coerceUTF8_append coerceUTF8_invalid)
  show ?thesis
    unfolding JSONCodec_Decode_Encode
    using f v n x c float64_error by (auto simp: coerceUTF8_valid)
qed

theorem JSONCodec_round_trip_witness:
  \<open>numbersInRange (marshalMessage (allFields\<lparr>Value := VNumber 3\<rparr>)) \<and>
   ValidString (Op allFields) \<and> ValidString (ID allFields) \<and> ValidString (Code allFields) \<and>
   ValidString (Output allFields) \<and> ValidString (ProtocolError allFields) \<and>
   list_all ValidString (Status allFields) \<and> \<bar>3 :: int\<bar> \<le> 2 ^ 53 \<and>
   (\<exists>M'. JSONCodec_Decode (JSONCodec_Encode [] (allFields\<lparr>Value := VNumber 3\<rparr>)) zeroMessage =
           (None, M', []) \<and>
      Op M' = ''eval'' \<and> ID M' = ''5'' \<and> Code M' = ''(println "test")'' \<and>
      Output M' = ''test\<newline>'' \<and> ProtocolError M' = [] \<and> Status M' = [''done''] \<and>
      Value M' = VNumber 3) \<and>
   numbersInRange (marshalMessage ((evalRequest ''1'' [CHR ''a'', CHR 0xFF])\<lparr>Value := VNumber (2 ^ 53 + 1)\<rparr>)) \<and>
   ValidString ''a'' \<and> DecodeRuneInString [CHR 0xFF] = (RuneError, 1) \<and>
   float64 (2 ^ 53 + 1) = Some (2 ^ 53) \<and>
   (\<exists>M'. JSONCodec_Decode
           (JSONCodec_Encode [] ((evalRequest ''1'' [CHR ''a'', CHR 0xFF])\<lparr>Value := VNumber (2 ^ 53 + 1)\<rparr>))
           zeroMessage = (None, M', []) \<and>
      Op M' = ''eval'' \<and> ID M' = ''1'' \<and> Code M' = [CHR ''a'', CHR 0xEF, CHR 0xBF, CHR 0xBD] \<and>
      Value M' = VNumber (2 ^ 53))\<close>
proof -
  define M1 where "M1 = allFields\<lparr>Value := VNumber 3\<rparr>"
  define M2 where "M2 = (evalRequest ''1'' [CHR ''a'', CHR 0xFF])\<lparr>Value := VNumber (2 ^ 53 + 1)\<rparr>"
  have r: "float64 (2 ^ 53 + 1) = Some (2 ^ 53)"
    by (rule float64_rounds)
  have n1: "numbersInRange (marshalMessage M1)"
    by (simp add: M1_def numbersInRange_marshalMessage allFields_def float64_exact)
  have n2: "numbersInRange (marshalMessage M2)"
    using r by (simp add: M2_def numbersInRange_marshalMessage evalRequest_def zeroMessage_def)
  have v: "ValidString (Op allFields)" "ValidString (ID allFields)" "ValidString (Code allFields)"
    "ValidString (Output allFields)" "ValidString (ProtocolError allFields)"
    "list_all ValidString (Status allFields)"
    by (simp_all add: allFields_def ValidString_ascii)
  have a: "ValidString ''a''" "ValidString ''eval''" "ValidString ''1''"
    by (simp_all add: ValidString_ascii)
  have d: "DecodeRuneInString [CHR 0xFF] = (RuneError, 1)"
    by (simp add: DecodeRuneInString_def first_def)
  from JSONCodec_round_trip [of M1]
  obtain e1 M1' where "JSONCodec_Decode (JSONCodec_Encode [] M1) zeroMessage = (e1, M1', [])"
    and "numbersInRange (marshalMessage M1) \<longrightarrow> e1 = None"
    and "ValidString (Op M1) \<longrightarrow> Op M1' = Op M1"
    and "ValidString (ID M1) \<longrightarrow> ID M1' = ID M1"
    and "ValidString (Code M1) \<longrightarrow> Code M1' = Code M1"
    and "ValidString (Output M1) \<longrightarrow> Output M1' = Output M1"
    and "ValidString (ProtocolError M1) \<longrightarrow> ProtocolError M1' = ProtocolError M1"
    and "list_all ValidString (Status M1) \<longrightarrow> Status M1' = Status M1"
    and "\<forall>n. Value M1 = VNumber n \<and> \<bar>n\<bar> \<le> 2 ^ 53 \<longrightarrow> Value M1' = VNumber n"
    by blast
  with n1 v have i1: \<open>\<exists>M'. JSONCodec_Decode (JSONCodec_Encode [] M1) zeroMessage = (None, M', []) \<and>
      Op M' = ''eval'' \<and> ID M' = ''5'' \<and> Code M' = ''(println "test")'' \<and>
      Output M' = ''test\<newline>'' \<and> ProtocolError M' = [] \<and> Status M' = [''done''] \<and>
      Value M' = VNumber 3\<close>
    by (simp add: M1_def allFields_def)
  from JSONCodec_round_trip [of M2]
  obtain e2 M2' where "JSONCodec_Decode (JSONCodec_Encode [] M2) zeroMessage = (e2, M2', [])"
    and "numbersInRange (marshalMessage M2) \<longrightarrow> e2 = None"
    and "ValidString (Op M2) \<longrightarrow> Op M2' = Op M2"
    and "ValidString (ID M2) \<longrightarrow> ID M2' = ID M2"
    and "Code M2' = coerceUTF8 (Code M2)"
    and "\<forall>a b c. ValidString a \<and> DecodeRuneInString (b # c) = (RuneError, 1) \<longrightarrow>
        coerceUTF8 (a @ b # c) = a @ [CHR 0xEF, CHR 0xBF, CHR 0xBD] @ coerceUTF8 c"
    and "\<forall>s. ValidString s \<longrightarrow> coerceUTF8 s = s"
    and "\<forall>n f. Value M2 = VNumber n \<and> float64 n = Some f \<longrightarrow>
        Value M2' = VNumber f \<and> 2 ^ 53 * \<bar>f - n\<bar> \<le> \<bar>n\<bar>"
    by blast
  moreover from this(6) a(1) d
  have "coerceUTF8 (''a'' @ CHR 0xFF # []) = ''a'' @ [CHR 0xEF, CHR 0xBF, CHR 0xBD] @ coerceUTF8 []"
    by blast
  moreover from calculation(7) have "coerceUTF8 [] = []"
    by (simp add: ValidString_Nil)
  ultimately have i2: "\<exists>M'. JSONCodec_Decode (JSONCodec_Encode [] M2) zeroMessage = (None, M', []) \<and>
      Op M' = ''eval'' \<and> ID M' = ''1'' \<and> Code M' = [CHR ''a'', CHR 0xEF, CHR 0xBF, CHR 0xBD] \<and>
      Value M' = VNumber (2 ^ 53)"
    using n2 a r by (simp add: M2_def evalRequest_def zeroMessage_def)
  from n1 n2 v a(1) d r i1 i2 show ?thesis
    unfolding M1_def M2_def by simp
qed

subsection \<open>Omitted fields\<close>

lemma Handle_evalResponse:
  "evaluator h = Some ev \<Longrightarrow> ev ''(+ 1 2)'' = (VNumber 3, [], None) \<Longrightarrow>
   Handle env h (evalRequest ''1'' ''(+ 1 2)'') = Inr evalResponse"
  by (simp add: Handle_def handleEval_def evalRequest_def evalResponse_def zeroMessage_def)

lemma marshal_evalResponse:
  "marshalMessage evalResponse =
     JObject [(''op'', JString []), (''id'', JString ''1''), (''status'', JArray [JString ''done'']),
              (''value'', JNumber 3)]"
  by (simp add: marshalMessage_def evalResponse_def zeroMessage_def coerceUTF8_ascii coerceUTF8_Nil)

text \<open>
  C5: the encoding omits every field at its zero value, and the response to \<^verbatim>\<open>(+ 1 2)\<close> with
  id 1 is written without the key \<^verbatim>\<open>op\<close>. The code does otherwise. The tags of \<^verbatim>\<open>Op\<close> and
  \<^verbatim>\<open>ID\<close>, unlike those of the seven other fields, carry no \<^verbatim>\<open>omitempty\<close>: the handler's
  response to that request, whose \<^verbatim>\<open>Op\<close> is empty, is written as the record
  \<^verbatim>\<open>{"op":"","id":"1","status":["done"],"value":3}\<close>, with the key \<^verbatim>\<open>op\<close>.
\<close>

theorem JSONCodec_Encode_writes_empty_op:
  "Handle testHost (NewHandler (Some mockEvaluator)) (evalRequest ''1'' ''(+ 1 2)'') = Inr evalResponse \<and>
   JSONCodec_Encode [] evalResponse =
     [JObject [(''op'', JString []), (''id'', JString ''1''), (''status'', JArray [JString ''done'']),
               (''value'', JNumber 3)]] \<and>
   Op evalResponse = [] \<and>
   ''op'' \<in> set (keys (marshalMessage evalResponse))"
  by (simp add: Handle_evalResponse NewHandler_def mockEvaluator_def JSONCodec_Encode_def
      marshal_evalResponse keys_def) (simp add: evalResponse_def zeroMessage_def)

section \<open>Properties of the in-process transport\<close>

lemma select2_simps:
  "select2 pick True False = Some First"
  "select2 pick False True = Some Second"
  "select2 pick False False = None"
  "select2 pick True True = Some pick"
  by (simp_all add: select2_def)

lemma chanAt_Some_iff: "chanAt s i = Some ch \<longleftrightarrow> i < length (chans s) \<and> chans s ! i = ch"
  by (cases "i < length (chans s)") (simp_all add: chanAt_def)

lemma Eval_send_running:
  assumes "ctx s = Some False" and "server c" and "\<not> closed (requests s)"
    and "length (buf (requests s)) < cap (requests s)"
  shows "Eval_send pick s c code =
    Returns (None, s\<lparr>requests := push (requests s) (evalMessage c code)\<rparr>, c\<lparr>msgID := msgID c + 1\<rparr>)"
  using assms
  by (simp add: Eval_send_def sendRequest_def Let_def select2_simps evalMessage_def push_def)

lemma Eval_wait_cancelled:
  assumes "responses c = Some i" and "chanAt s i = Some ch" and "buf ch = []" and "\<not> closed ch"
  shows "Eval_wait pick (Some err) s c = Returns (Inl err, s)"
  using assms by (simp add: Eval_wait_def select2_simps)

lemma Eval_wait_receives:
  assumes "responses c = Some i" and "chanAt s i = Some ch" and "buf ch = resp # rest"
  shows "Eval_wait pick None s c =
    Returns (Inr (messageToResult resp), s\<lparr>chans := (chans s)[i := ch\<lparr>buf := rest\<rparr>]\<rparr>)"
  using assms by (simp add: Eval_wait_def select2_simps)

lemma processRequests_takes:
  assumes "ctx s = Some False" and "buf (requests s) = req # rest" and "Session req \<noteq> []"
    and "Handle env (handler s) req = Inr resp" and "clients s (Session req) = Some i"
  shows "processRequests env pick (Idle, s) =
    Returns (Sending i resp, s\<lparr>requests := (requests s)\<lparr>buf := rest\<rparr>\<rparr>)"
  using assms by (simp add: processRequests_def Let_def select2_simps)

lemma processRequests_sends:
  assumes "ctx s = Some False" and "chanAt s i = Some ch" and "\<not> closed ch"
    and "length (buf ch) < cap ch"
  shows "processRequests env pick (Sending i resp, s) =
    Returns (Idle, s\<lparr>chans := (chans s)[i := push ch resp]\<rparr>)"
  using assms by (simp add: processRequests_def Let_def select2_simps push_def)

lemma digit_code: "d < 10 \<Longrightarrow> of_char (''0123456789'' ! d) = 48 + d"
proof -
  assume "d < 10"
  then have "d \<in> {0, 1, 2, 3, 4, 5, 6, 7, 8, 9}"
    by auto
  then show ?thesis
    by auto
qed

lemma undecimal_decimal: "undecimal (decimal n) = n"
proof (induction n rule: decimal.induct)
  case (1 n)
  show ?case
  proof (cases "n < 10")
    case True
    then show ?thesis
      by (subst decimal.simps) (simp add: undecimal_def digit_code)
  next
    case False
    have "undecimal (decimal (n div 10) @ [''0123456789'' ! (n mod 10)]) =
        10 * undecimal (decimal (n div 10)) + n mod 10"
      by (simp add: undecimal_def digit_code)
    with False "1.IH" show ?thesis
      by (subst decimal.simps) simp
  qed
qed

lemma decimal_inj: "decimal n = decimal m \<Longrightarrow> n = m"
  by (metis undecimal_decimal)

lemma next_ids_differ: "decimal (unat (n + 1 :: 64 word)) \<noteq> decimal (unat (n + 2))"
proof
  assume "decimal (unat (n + 1)) = decimal (unat (n + 2))"
  then have "unat (n + 1) = unat (n + 2)"
    by (rule decimal_inj)
  then have "n + 1 = n + 2"
    by (rule word_unat_eq_iff [THEN iffD2])
  then show False
    by simp
qed

lemma Handle_returns_with_ID:
  assumes "evaluator h \<noteq> None"
  shows "\<exists>resp. Handle env h req = Inr resp \<and> ID resp = ID req"
proof -
  from Handle_returns [OF assms] obtain resp where r: "Handle env h req = Inr resp"
    by blast
  from Handle_shape [OF r] have "ID resp = ID req"
    by auto
  with r show ?thesis
    by blast
qed

text \<open>
  C9. A client is registered with a running, idle server, and its response channel is
  empty. Its \<^verbatim>\<open>Eval\<close> queues a request and returns the error of the caller's context,
  which is done. The server then handles the request, and the response stays in the
  client's channel. The next \<^verbatim>\<open>Eval\<close> of the client queues the request with the next id
  and returns the buffered response: a result with the id of the first request, which is
  not the id of the new one. This holds whatever the \<^verbatim>\<open>select\<close> statements would pick.
\<close>

theorem Eval_after_cancel_returns_stale_response:
  assumes "ctx s = Some False" and "evaluator (handler s) \<noteq> None"
    and "requests s = \<lparr>buf = [], cap = 100, closed = False\<rparr>"
    and "server c" and "clientID c \<noteq> []"
    and "responses c = Some i" and "clients s (clientID c) = Some i"
    and "chanAt s i = Some \<lparr>buf = [], cap = 10, closed = False\<rparr>"
  shows "\<exists>s1 c1 s2 resp s3 s4 c2 s5.
     Eval_send p1 s c code1 = Returns (None, s1, c1) \<and>
     Eval_wait p2 (Some err) s1 c1 = Returns (Inl err, s1) \<and>
     processRequests env p3 (Idle, s1) = Returns (Sending i resp, s2) \<and>
     processRequests env p4 (Sending i resp, s2) = Returns (Idle, s3) \<and>
     chanAt s3 i = Some \<lparr>buf = [resp], cap = 10, closed = False\<rparr> \<and>
     ID resp = decimal (unat (msgID c + 1)) \<and>
     Eval_send p5 s3 c1 code2 = Returns (None, s4, c2) \<and>
     map ID (buf (requests s4)) = [decimal (unat (msgID c + 2))] \<and>
     Eval_wait p6 None s4 c2 = Returns (Inr (messageToResult resp), s5) \<and>
     ResultID (messageToResult resp) = decimal (unat (msgID c + 1)) \<and>
     ResultID (messageToResult resp) \<noteq> decimal (unat (msgID c + 2))"
proof -
  let ?ch = "\<lparr>buf = [], cap = 10, closed = False\<rparr>"
  define req1 where "req1 = evalMessage c code1"
  define c1 where "c1 = c\<lparr>msgID := msgID c + 1\<rparr>"
  define s1 where "s1 = s\<lparr>requests := push (requests s) req1\<rparr>"
  have i: "i < length (chans s)"
    using assms(8) by (cases "i < length (chans s)") (simp_all add: chanAt_def)
  have chi: "chans s ! i = ?ch"
    using assms(8) i by (simp add: chanAt_def)
  have send1: "Eval_send p1 s c code1 = Returns (None, s1, c1)"
    unfolding s1_def c1_def req1_def
    using assms(1,3,4) by (intro Eval_send_running) simp_all
  have s1: "ctx s1 = Some False" "buf (requests s1) = [req1]" "chans s1 = chans s"
    "clients s1 = clients s" "handler s1 = handler s"
    using assms(1,3) by (simp_all add: s1_def push_def)
  have c1: "server c1" "responses c1 = Some i" "msgID c1 = msgID c + 1" "clientID c1 = clientID c"
    using assms(4,6) by (simp_all add: c1_def)
  have ch1: "chanAt s1 i = Some ?ch"
    using i chi s1 by (simp add: chanAt_def)
  have wait1: "Eval_wait p2 (Some err) s1 c1 = Returns (Inl err, s1)"
    using c1(2) ch1 by (rule Eval_wait_cancelled) simp_all
  obtain resp where h: "Handle env (handler s) req1 = Inr resp" and rid: "ID resp = ID req1"
    using Handle_returns_with_ID [OF assms(2)] by blast
  have req1: "ID req1 = decimal (unat (msgID c + 1))" "Session req1 = clientID c"
    by (simp_all add: req1_def evalMessage_def)
  define s2 where "s2 = s1\<lparr>requests := (requests s1)\<lparr>buf := []\<rparr>\<rparr>"
  have take: "processRequests env p3 (Idle, s1) = Returns (Sending i resp, s2)"
    unfolding s2_def
    using s1 h req1 assms(5,7) by (intro processRequests_takes [where req = req1]) simp_all
  have s2: "ctx s2 = Some False" "requests s2 = \<lparr>buf = [], cap = 100, closed = False\<rparr>"
    "chans s2 = chans s"
    using s1 assms(3) by (simp_all add: s2_def s1_def push_def)
  have ch2: "chanAt s2 i = Some ?ch"
    using i chi s2 by (simp add: chanAt_def)
  define s3 where "s3 = s2\<lparr>chans := (chans s2)[i := push ?ch resp]\<rparr>"
  have give: "processRequests env p4 (Sending i resp, s2) = Returns (Idle, s3)"
    unfolding s3_def
    using s2(1) ch2 by (rule processRequests_sends) simp_all
  have s3: "ctx s3 = Some False" "requests s3 = \<lparr>buf = [], cap = 100, closed = False\<rparr>"
    using s2 by (simp_all add: s3_def)
  have ch3: "chanAt s3 i = Some \<lparr>buf = [resp], cap = 10, closed = False\<rparr>"
    using i s2 by (simp add: chanAt_def push_def s3_def)
  define c2 where "c2 = c1\<lparr>msgID := msgID c1 + 1\<rparr>"
  define s4 where "s4 = s3\<lparr>requests := push (requests s3) (evalMessage c1 code2)\<rparr>"
  have send2: "Eval_send p5 s3 c1 code2 = Returns (None, s4, c2)"
    unfolding s4_def c2_def
    using s3 c1 by (intro Eval_send_running) simp_all
  have ids: "map ID (buf (requests s4)) = [decimal (unat (msgID c + 2))]"
    using s3 c1 by (simp add: s4_def push_def evalMessage_def add.assoc)
  have ch4: "chanAt s4 i = Some \<lparr>buf = [resp], cap = 10, closed = False\<rparr>"
    using ch3 by (simp add: chanAt_Some_iff s4_def)
  have c2: "responses c2 = Some i"
    using c1 by (simp add: c2_def)
  define s5 where
    "s5 = s4\<lparr>chans := (chans s4)[i := \<lparr>buf = [resp], cap = 10, closed = False\<rparr>\<lparr>buf := []\<rparr>]\<rparr>"
  have wait2: "Eval_wait p6 None s4 c2 = Returns (Inr (messageToResult resp), s5)"
    unfolding s5_def
    using c2 ch4 by (rule Eval_wait_receives) simp
  have id1: "ID resp = decimal (unat (msgID c + 1))"
    using rid req1 by simp
  have rid1: "ResultID (messageToResult resp) = decimal (unat (msgID c + 1))"
    using id1 by (simp add: messageToResult_def)
  have "ResultID (messageToResult resp) \<noteq> decimal (unat (msgID c + 2))"
    unfolding rid1 by (rule next_ids_differ)
  with send1 wait1 take give ch3 id1 send2 ids wait2 rid1 show ?thesis
    by (intro exI conjI) assumption+
qed

lemma freshClient_eq:
  "freshClient = \<lparr>server = True, responses = Some 0, clientID = ''client-1'', msgID = 0\<rparr>"
  by (simp add: freshClient_def inprocess_Connect_def inprocess_NewClient_def registerClient_def
      inprocess_Start_def inprocess_NewServer_def Let_def decimal.simps)

lemma freshServer_eq:
  "freshServer =
    \<lparr>handler = \<lparr>evaluator = Some mockEvaluator\<rparr>,
     requests = \<lparr>buf = [], cap = 100, closed = False\<rparr>,
     chans = [\<lparr>buf = [], cap = 10, closed = False\<rparr>],
     clients = [''client-1'' \<mapsto> 0],
     ctx = Some False\<rparr>"
  by (simp add: freshServer_def inprocess_Connect_def inprocess_NewClient_def registerClient_def
      inprocess_Start_def inprocess_NewServer_def NewHandler_def Let_def decimal.simps)

theorem Eval_after_cancel_returns_stale_response_witness:
  "ctx freshServer = Some False \<and> evaluator (handler freshServer) \<noteq> None \<and>
   requests freshServer = \<lparr>buf = [], cap = 100, closed = False\<rparr> \<and>
   server freshClient \<and> clientID freshClient \<noteq> [] \<and> responses freshClient = Some 0 \<and>
   clients freshServer (clientID freshClient) = Some 0 \<and>
   chanAt freshServer 0 = Some \<lparr>buf = [], cap = 10, closed = False\<rparr> \<and>
   (\<exists>s1 c1 s2 resp s3 s4 c2 s5.
     Eval_send First freshServer freshClient ''(+ 1 2)'' = Returns (None, s1, c1) \<and>
     Eval_wait First (Some ''context canceled'') s1 c1 = Returns (Inl ''context canceled'', s1) \<and>
     processRequests testHost First (Idle, s1) = Returns (Sending 0 resp, s2) \<and>
     processRequests testHost First (Sending 0 resp, s2) = Returns (Idle, s3) \<and>
     chanAt s3 0 = Some \<lparr>buf = [resp], cap = 10, closed = False\<rparr> \<and>
     ID resp = ''1'' \<and>
     Eval_send First s3 c1 ''(println 1)'' = Returns (None, s4, c2) \<and>
     map ID (buf (requests s4)) = [''2''] \<and>
     Eval_wait First None s4 c2 = Returns (Inr (messageToResult resp), s5) \<and>
     ResultID (messageToResult resp) = ''1'' \<and>
     ResultID (messageToResult resp) \<noteq> ''2'')"
proof -
  have h: "ctx freshServer = Some False" "evaluator (handler freshServer) \<noteq> None"
    "requests freshServer = \<lparr>buf = [], cap = 100, closed = False\<rparr>"
    "server freshClient" "clientID freshClient \<noteq> []" "responses freshClient = Some 0"
    "clients freshServer (clientID freshClient) = Some 0"
    "chanAt freshServer 0 = Some \<lparr>buf = [], cap = 10, closed = False\<rparr>"
    by (simp_all add: freshServer_eq freshClient_eq chanAt_def)
  have d: "decimal (unat (msgID freshClient + 1)) = ''1''" "decimal (unat (msgID freshClient + 2)) = ''2''"
    by (simp_all add: freshClient_eq decimal.simps)
  note t = Eval_after_cancel_returns_stale_response [OF h, of First "''(+ 1 2)''" First
      "''context canceled''" testHost First First First "''(println 1)''" First]
  show ?thesis
    using h t unfolding d by blast
qed

end
